theory Spec2Isabelle
  imports Main
begin

section \<open>Python strings\<close>

text \<open>
  A Python \<open>str\<close> is modelled as a HOL \<open>string\<close>: a list of characters whose codes
  are the code points below 256. The converter only concatenates, slices, strips and
  compares strings, so nothing below depends on larger code points.
\<close>

abbreviation nl :: string where
  "nl \<equiv> [CHR 0x0A]"

text \<open>\<open>sep.join(xs)\<close>.\<close>

fun join :: "string \<Rightarrow> string list \<Rightarrow> string" where
  "join sep [] = []"
| "join sep [x] = x"
| "join sep (x # y # ys) = x @ sep @ join sep (y # ys)"

text \<open>\<open>str(x)\<close> as an f-string applies it to a value that is a string or \<open>None\<close>.\<close>

fun py_str :: "string option \<Rightarrow> string" where
  "py_str None = ''None''"
| "py_str (Some s) = s"

text \<open>The lines of a text, as \<open>s.split('\n')\<close> gives them.\<close>

fun split_nl :: "string \<Rightarrow> string list" where
  "split_nl [] = [[]]"
| "split_nl (c # cs) =
     (if c = CHR 0x0A then [] # split_nl cs
      else (case split_nl cs of l # ls \<Rightarrow> (c # l) # ls | [] \<Rightarrow> [[c]]))"

definition single_line :: "string \<Rightarrow> bool" where
  "single_line s = (CHR 0x0A \<notin> set s)"

text \<open>\<open>s.startswith(p)\<close>.\<close>

definition startswith :: "string \<Rightarrow> string \<Rightarrow> bool" where
  "startswith s p = (take (length p) s = p)"

section \<open>Front matter\<close>

text \<open>
  \<open>process_html_file\<close> builds the dictionary \<open>front_matter\<close> with exactly the five
  keys below before it calls \<open>generate_front_matter\<close>; \<open>categories\<close> holds a string or
  \<open>None\<close>, \<open>tags\<close> a list of strings.
\<close>

record front_matter =
  title :: string
  updated :: string
  date :: string
  categories :: "string option"
  tags :: "string list"

text \<open>The line \<open>f"  - {tag}"\<close> of one tag.\<close>

definition tag_line :: "string \<Rightarrow> string" where
  "tag_line tag = ''  - '' @ tag"

definition generate_front_matter :: "front_matter \<Rightarrow> string" where
  "generate_front_matter data =
     (let fm = ''---'' @ nl;
          fm = fm @ ''title: '' @ title data @ nl;
          fm = fm @ ''updated: '' @ updated data @ nl;
          fm = fm @ ''date: '' @ date data @ nl;
          fm = fm @ ''categories: '' @ py_str (categories data) @ nl;
          fm = (if tags data \<noteq> []
                then fm @ ''tags:'' @ nl @ join nl (map tag_line (tags data))
                else fm)
      in fm @ nl @ ''---'' @ nl @ nl)"

section \<open>Errors\<close>

text \<open>The exceptions the converter can raise; a failing call returns \<open>Inl\<close> of one.\<close>

datatype py_error =
  ValueError | IndexError | KeyError | TypeError | AttributeError
  | OverflowError | UnknownTimeZoneError

section \<open>The library \<open>datetime\<close>\<close>

text \<open>
  \<open>datetime.strptime\<close> compiles its format to a regular expression and matches it
  with \<open>re.match\<close> (backtracking, alternatives tried in order, \<open>IGNORECASE\<close>).
  Every directive of the two formats used here is an ordered choice between
  fixed-length sequences of character classes, so a directive is modelled as the list
  of its alternatives, an alternative as the list of its classes, and a class as the
  string of its members.
\<close>

type_synonym directive = "string list list"

abbreviation digits :: string where
  "digits \<equiv> ''0123456789''"

abbreviation digits19 :: string where
  "digits19 \<equiv> ''123456789''"

definition re_Y :: directive where
  "re_Y = [[digits, digits, digits, digits]]"

definition re_m :: directive where
  "re_m = [[''1'', ''012''], [''0'', digits19], [digits19]]"

definition re_d :: directive where
  "re_d = [[''3'', ''01''], [''12'', digits], [''0'', digits19], [digits19], ['' '', digits19]]"

definition re_H :: directive where
  "re_H = [[''2'', ''0123''], [''01'', digits], [digits]]"

definition re_M :: directive where
  "re_M = [[''012345'', digits], [digits]]"

definition re_S :: directive where
  "re_S = [[''6'', ''01''], [''012345'', digits], [digits]]"

text \<open>\<open>[0-9]{1,6}\<close> is greedy: the longest run is tried first.\<close>

definition re_f :: directive where
  "re_f = map (\<lambda>k. replicate k digits) [6, 5, 4, 3, 2, 1]"

text \<open>A literal character of the format; under \<open>IGNORECASE\<close> the letter T matches t too.\<close>

definition re_lit :: "string \<Rightarrow> directive" where
  "re_lit cls = [[cls]]"

text \<open>One alternative against a prefix of the text: the matched text and the rest.\<close>

fun match_alt :: "string list \<Rightarrow> string \<Rightarrow> (string \<times> string) option" where
  "match_alt [] s = Some ([], s)"
| "match_alt (cls # clss) [] = None"
| "match_alt (cls # clss) (c # s) =
     (if c \<in> set cls
      then (case match_alt clss s of None \<Rightarrow> None | Some (g, r) \<Rightarrow> Some (c # g, r))
      else None)"

text \<open>
  All ways to match a sequence of directives against a prefix of the text, in the
  order in which backtracking finds them: the groups and the unmatched rest.
\<close>

fun match_seq :: "directive list \<Rightarrow> string \<Rightarrow> (string list \<times> string) list" where
  "match_seq [] s = [([], s)]"
| "match_seq (d # ds) s =
     concat (map (\<lambda>(g, r). map (\<lambda>(gs, r'). (g # gs, r')) (match_seq ds r))
                 (List.map_filter (\<lambda>alt. match_alt alt s) d))"

text \<open>
  \<open>re.match\<close> returns the first match, if there is one; \<open>strptime\<close> then tests
  \<open>len(data_string) != found.end()\<close>: text left over after the match is an error.
\<close>

definition first_match :: "directive list \<Rightarrow> string \<Rightarrow> (string list \<times> string) option" where
  "first_match pat s = (case match_seq pat s of [] \<Rightarrow> None | m # _ \<Rightarrow> Some m)"

definition re_match :: "directive list \<Rightarrow> string \<Rightarrow> py_error + string list" where
  "re_match pat s =
     (case first_match pat s of
        None \<Rightarrow> Inl ValueError
      | Some (gs, r) \<Rightarrow> if r \<noteq> [] then Inl ValueError else Inr gs)"

text \<open>\<open>int(s)\<close> on a group of the match: decimal digits, after a blank for \<open>%d\<close>.\<close>

definition digit_val :: "char \<Rightarrow> int" where
  "digit_val c = int (of_char c) - 48"

definition int_of_group :: "string \<Rightarrow> int" where
  "int_of_group s = foldl (\<lambda>a c. 10 * a + digit_val c) 0 (dropWhile (\<lambda>c. c = CHR '' '') s)"

record datetime =
  year :: int
  month :: int
  day :: int
  hour :: int
  minute :: int
  second :: int
  microsecond :: int

definition is_leap :: "int \<Rightarrow> bool" where
  "is_leap y = (y mod 4 = 0 \<and> (y mod 100 \<noteq> 0 \<or> y mod 400 = 0))"

definition DAYS_IN_MONTH :: "int list" where
  "DAYS_IN_MONTH = [-1, 31, 28, 31, 30, 31, 30, 31, 31, 30, 31, 30, 31]"

definition DAYS_BEFORE_MONTH :: "int list" where
  "DAYS_BEFORE_MONTH = [-1, 0, 31, 59, 90, 120, 151, 181, 212, 243, 273, 304, 334]"

definition MAXORDINAL :: int where
  "MAXORDINAL = 3652059"

definition days_in_month :: "int \<Rightarrow> int \<Rightarrow> int" where
  "days_in_month y m = (if m = 2 \<and> is_leap y then 29 else DAYS_IN_MONTH ! nat m)"

definition days_before_year :: "int \<Rightarrow> int" where
  "days_before_year y' = (let y = y' - 1 in y * 365 + y div 4 - y div 100 + y div 400)"

definition days_before_month :: "int \<Rightarrow> int \<Rightarrow> int" where
  "days_before_month y m = DAYS_BEFORE_MONTH ! nat m + (if m > 2 \<and> is_leap y then 1 else 0)"

definition ymd2ord :: "int \<Rightarrow> int \<Rightarrow> int \<Rightarrow> int" where
  "ymd2ord y m d = days_before_year y + days_before_month y m + d"

text \<open>
  The constructor \<open>datetime(year, month, day, hour, minute, second, microsecond)\<close>
  with its range checks (\<open>_check_date_fields\<close>, \<open>_check_time_fields\<close>).
\<close>

definition datetime_new ::
  "int \<Rightarrow> int \<Rightarrow> int \<Rightarrow> int \<Rightarrow> int \<Rightarrow> int \<Rightarrow> int \<Rightarrow> py_error + datetime" where
  "datetime_new y m d H M S us =
     (if \<not> (1 \<le> y \<and> y \<le> 9999) then Inl ValueError
      else if \<not> (1 \<le> m \<and> m \<le> 12) then Inl ValueError
      else if \<not> (1 \<le> d \<and> d \<le> days_in_month y m) then Inl ValueError
      else if \<not> (0 \<le> H \<and> H \<le> 23) then Inl ValueError
      else if \<not> (0 \<le> M \<and> M \<le> 59) then Inl ValueError
      else if \<not> (0 \<le> S \<and> S \<le> 59) then Inl ValueError
      else if \<not> (0 \<le> us \<and> us \<le> 999999) then Inl ValueError
      else Inr \<lparr>year = y, month = m, day = d, hour = H, minute = M, second = S,
                microsecond = us\<rparr>)"

text \<open>\<open>datetime.strptime(s, "%Y-%m-%dT%H:%M:%S")\<close>.\<close>

definition strptime_S :: "string \<Rightarrow> py_error + datetime" where
  "strptime_S s =
     (case re_match [re_Y, re_lit ''-'', re_m, re_lit ''-'', re_d, re_lit ''Tt'',
                     re_H, re_lit '':'', re_M, re_lit '':'', re_S] s of
        Inl e \<Rightarrow> Inl e
      | Inr gs \<Rightarrow>
          datetime_new (int_of_group (gs ! 0)) (int_of_group (gs ! 2)) (int_of_group (gs ! 4))
            (int_of_group (gs ! 6)) (int_of_group (gs ! 8)) (int_of_group (gs ! 10)) 0)"

text \<open>
  \<open>datetime.strptime(s, "%Y-%m-%dT%H:%M:%S.%f")\<close>; the fraction is padded with zeros
  on the right to six digits.
\<close>

definition strptime_f :: "string \<Rightarrow> py_error + datetime" where
  "strptime_f s =
     (case re_match [re_Y, re_lit ''-'', re_m, re_lit ''-'', re_d, re_lit ''Tt'',
                     re_H, re_lit '':'', re_M, re_lit '':'', re_S, re_lit ''.'', re_f] s of
        Inl e \<Rightarrow> Inl e
      | Inr gs \<Rightarrow>
          datetime_new (int_of_group (gs ! 0)) (int_of_group (gs ! 2)) (int_of_group (gs ! 4))
            (int_of_group (gs ! 6)) (int_of_group (gs ! 8)) (int_of_group (gs ! 10))
            (int_of_group (gs ! 12 @ replicate (6 - length (gs ! 12)) (CHR ''0''))))"

text \<open>
  \<open>_ord2ymd\<close>: the date of a proleptic Gregorian ordinal, 1 January of year 1 being
  day 1. Its last step, from the offset \<open>n\<close> within the year to month and day, is
  \<open>month_day\<close>: the month is estimated by a shift and corrected when too large.
\<close>

definition month_day :: "int \<Rightarrow> bool \<Rightarrow> int \<times> int" where
  "month_day n leapyear =
     (let m = (n + 50) div 32;
          preceding = DAYS_BEFORE_MONTH ! nat m + (if m > 2 \<and> leapyear then 1 else 0)
      in if preceding > n
         then let m = m - 1;
                  preceding = preceding
                    - (DAYS_IN_MONTH ! nat m + (if m = 2 \<and> leapyear then 1 else 0))
              in (m, n - preceding + 1)
         else (m, n - preceding + 1))"

definition ord2ymd :: "int \<Rightarrow> int \<times> int \<times> int" where
  "ord2ymd n0 =
     (let n = n0 - 1;
          n400 = n div 146097; n = n mod 146097;
          y = n400 * 400 + 1;
          n100 = n div 36524; n = n mod 36524;
          n4 = n div 1461; n = n mod 1461;
          n1 = n div 365; n = n mod 365;
          y = y + n100 * 100 + n4 * 4 + n1
      in if n1 = 4 \<or> n100 = 4 then (y - 1, 12, 31)
         else (y, month_day n (n1 = 3 \<and> (n4 \<noteq> 24 \<or> n100 = 3))))"

text \<open>
  \<open>datetime.__add__\<close> for a \<open>timedelta\<close> of whole seconds. The time is first turned
  into \<open>timedelta(self.toordinal(), hours=..., minutes=..., seconds=...)\<close>, here in
  seconds; the sum is normalised to days and seconds, and a day outside
  \<open>1..MAXORDINAL\<close> is an \<open>OverflowError\<close>.
\<close>

definition total_seconds :: "datetime \<Rightarrow> int" where
  "total_seconds dt =
     ymd2ord (year dt) (month dt) (day dt) * 86400
     + hour dt * 3600 + minute dt * 60 + second dt"

definition datetime_add :: "datetime \<Rightarrow> int \<Rightarrow> py_error + datetime" where
  "datetime_add dt secs =
     (let total = total_seconds dt + secs;
          days = total div 86400; s = total mod 86400;
          H = s div 3600; rem = s mod 3600;
          M = rem div 60; S = rem mod 60
      in if 0 < days \<and> days \<le> MAXORDINAL
         then (case ord2ymd days of (y, m, d) \<Rightarrow>
                 Inr \<lparr>year = y, month = m, day = d, hour = H, minute = M, second = S,
                      microsecond = microsecond dt\<rparr>)
         else Inl OverflowError)"

text \<open>Decimal digits of a natural number, most significant first.\<close>

definition digit_char :: "nat \<Rightarrow> char" where
  "digit_char k = digits ! k"

fun decimal :: "nat \<Rightarrow> string" where
  "decimal n = (if n < 10 then [digit_char n] else decimal (n div 10) @ [digit_char (n mod 10)])"

text \<open>Zero padding on the left to a minimum width, as \<open>%02d\<close> does.\<close>

definition zfill :: "nat \<Rightarrow> string \<Rightarrow> string" where
  "zfill w s = replicate (w - length s) (CHR ''0'') @ s"

section \<open>The platform\<close>

text \<open>
  Two things the converter takes from its environment. The time zone database of
  \<open>pytz\<close> gives, for a zone name, the offset from UTC in whole seconds in force at a
  UTC wall time. \<open>strftime\<close> hands \<open>%Y\<close> to the C library, which on some platforms
  prints years below 1000 without leading zeros: \<open>pads_year\<close> says whether it pads.
\<close>

record platform =
  tz_database :: "string \<Rightarrow> (datetime \<Rightarrow> int) option"
  pads_year :: bool

text \<open>\<open>dt.strftime("%Y-%m-%d %H:%M:%S")\<close>.\<close>

definition strftime :: "platform \<Rightarrow> datetime \<Rightarrow> string" where
  "strftime pf dt =
     (if pads_year pf then zfill 4 (decimal (nat (year dt))) else decimal (nat (year dt)))
     @ ''-'' @ zfill 2 (decimal (nat (month dt)))
     @ ''-'' @ zfill 2 (decimal (nat (day dt)))
     @ '' '' @ zfill 2 (decimal (nat (hour dt)))
     @ '':'' @ zfill 2 (decimal (nat (minute dt)))
     @ '':'' @ zfill 2 (decimal (nat (second dt)))"

section \<open>The library \<open>pytz\<close>\<close>

text \<open>
  A zone object is either the singleton \<open>pytz.utc\<close> or a zone loaded from the
  database.
\<close>

datatype tzinfo = UTC | Zone "datetime \<Rightarrow> int"

definition ascii_upper :: "char \<Rightarrow> char" where
  "ascii_upper c =
     (if c \<in> set ''abcdefghijklmnopqrstuvwxyz'' then char_of (of_char c - (32::nat)) else c)"

text \<open>
  \<open>pytz.timezone(zone)\<close>: any spelling of UTC is answered with \<open>pytz.utc\<close> before
  the database is consulted; an unknown name raises \<open>UnknownTimeZoneError\<close>.
\<close>

definition pytz_timezone :: "platform \<Rightarrow> string \<Rightarrow> py_error + tzinfo" where
  "pytz_timezone pf zone =
     (if map ascii_upper zone = ''UTC'' then Inr UTC
      else (case tz_database pf zone of
              None \<Rightarrow> Inl UnknownTimeZoneError
            | Some z \<Rightarrow> Inr (Zone z)))"

text \<open>
  \<open>utc_zone.localize(t).astimezone(target)\<close> for a naive \<open>t\<close>: a target that is the
  very object \<open>pytz.utc\<close> returns the time unchanged; otherwise the target's
  \<open>fromutc\<close> adds the offset in force at that UTC time.
\<close>

definition astimezone :: "datetime \<Rightarrow> tzinfo \<Rightarrow> py_error + datetime" where
  "astimezone utc_time target =
     (case target of
        UTC \<Rightarrow> Inr utc_time
      | Zone z \<Rightarrow> datetime_add utc_time (z utc_time))"

section \<open>Timezone normalizer\<close>

text \<open>
  The \<open>try\<close> statement of \<open>convert_utc_to_timezone\<close>: the pattern with a fraction
  first, and on \<open>ValueError\<close> the pattern without.
\<close>

definition parse_utc :: "string \<Rightarrow> py_error + datetime" where
  "parse_utc s =
     (case strptime_f s of
        Inr t \<Rightarrow> Inr t
      | Inl e \<Rightarrow> if e = ValueError then strptime_S s else Inl e)"

definition convert_utc_to_timezone :: "platform \<Rightarrow> string \<Rightarrow> string \<Rightarrow> py_error + string" where
  "convert_utc_to_timezone pf time_str tz_str =
     (case parse_utc (butlast time_str) of
        Inl e \<Rightarrow> Inl e
      | Inr utc_time \<Rightarrow>
          (case pytz_timezone pf ''UTC'' of
             Inl e \<Rightarrow> Inl e
           | Inr utc_zone \<Rightarrow>
               (case pytz_timezone pf tz_str of
                  Inl e \<Rightarrow> Inl e
                | Inr target_zone \<Rightarrow>
                    (case astimezone utc_time target_zone of
                       Inl e \<Rightarrow> Inl e
                     | Inr local_time \<Rightarrow> Inr (strftime pf local_time)))))"

text \<open>
  The shape \<open>YYYY-MM-DD HH:MM:SS\<close>: replacing every digit by 9 gives the template.
\<close>

definition shape_char :: "char \<Rightarrow> char" where
  "shape_char c = (if c \<in> set digits then CHR ''9'' else c)"

definition is_local_timestamp :: "string \<Rightarrow> bool" where
  "is_local_timestamp s = (map shape_char s = ''9999-99-99 99:99:99'')"

text \<open>
  The two forms of timestamp the pages carry, before the final \<open>Z\<close>:
  \<open>YYYY-MM-DDTHH:MM:SS\<close>, every field zero-padded to its width, and the same
  followed by a point and one to six digits of fraction.
\<close>

definition iso_whole :: "int \<Rightarrow> int \<Rightarrow> int \<Rightarrow> int \<Rightarrow> int \<Rightarrow> int \<Rightarrow> string" where
  "iso_whole y m d H M S =
     zfill 4 (decimal (nat y)) @ ''-'' @ zfill 2 (decimal (nat m)) @ ''-''
     @ zfill 2 (decimal (nat d)) @ ''T'' @ zfill 2 (decimal (nat H)) @ '':''
     @ zfill 2 (decimal (nat M)) @ '':'' @ zfill 2 (decimal (nat S))"

definition is_fraction :: "string \<Rightarrow> bool" where
  "is_fraction fr = (set fr \<subseteq> set digits \<and> 1 \<le> length fr \<and> length fr \<le> 6)"

text \<open>
  The converted time is representable when its day is one of the days
  \<open>1..MAXORDINAL\<close>, 1 January of year 1 to 31 December 9999, that a \<open>datetime\<close> can
  hold. A time left in UTC always is.
\<close>

definition representable :: "datetime \<Rightarrow> tzinfo \<Rightarrow> bool" where
  "representable t tz =
     (case tz of
        UTC \<Rightarrow> True
      | Zone z \<Rightarrow> 0 < (total_seconds t + z t) div 86400
                  \<and> (total_seconds t + z t) div 86400 \<le> MAXORDINAL)"

definition fields_in_range :: "datetime \<Rightarrow> bool" where
  "fields_in_range dt =
     (1 \<le> year dt \<and> year dt \<le> 9999 \<and> 1 \<le> month dt \<and> month dt \<le> 12
      \<and> 1 \<le> day dt \<and> day dt \<le> 31 \<and> 0 \<le> hour dt \<and> hour dt \<le> 23
      \<and> 0 \<le> minute dt \<and> minute dt \<le> 59 \<and> 0 \<le> second dt \<and> second dt \<le> 59)"

text \<open>
  A small database for examples: Asia/Shanghai at eight hours east of UTC, the
  offset pytz has for it at every time since 1991, on a platform that does not pad
  years.
\<close>

definition shanghai_offset :: "datetime \<Rightarrow> int" where
  "shanghai_offset t = 28800"

definition example_platform :: platform where
  "example_platform =
     \<lparr>tz_database = (\<lambda>zone. if zone = ''Asia/Shanghai'' then Some shanghai_offset else None),
      pads_year = False\<rparr>"

section \<open>The parsed document\<close>

text \<open>
  The tree that \<open>BeautifulSoup(f, 'html.parser')\<close> builds. A \<open>Tag\<close> has a name, the
  token list of its \<open>class\<close> attribute (\<open>None\<close> when it has none; the parser splits the
  value at whitespace), its other attributes as a dictionary of strings, and its
  children. \<open>NavigableString\<close> is a text node. \<open>Comment\<close> stands for the string nodes
  that are no text (comments, doctypes, declarations): they have no name and
  \<open>get_text\<close> leaves them out.
\<close>

datatype node =
  Tag string "string list option" "(string \<times> string) list" "node list"
  | NavigableString string
  | Comment string

text \<open>\<open>element.name\<close>: \<open>None\<close> for a string node.\<close>

fun name :: "node \<Rightarrow> string option" where
  "name (Tag n cls attrs cs) = Some n"
| "name (NavigableString s) = None"
| "name (Comment s) = None"

text \<open>\<open>element.get('class')\<close>.\<close>

fun get_class :: "node \<Rightarrow> string list option" where
  "get_class (Tag n cls attrs cs) = cls"
| "get_class (NavigableString s) = None"
| "get_class (Comment s) = None"

text \<open>\<open>element.get(key)\<close> for an attribute other than \<open>class\<close>.\<close>

fun get :: "node \<Rightarrow> string \<Rightarrow> string option" where
  "get (Tag n cls attrs cs) key = map_of attrs key"
| "get (NavigableString s) key = None"
| "get (Comment s) key = None"

text \<open>\<open>element.children\<close>.\<close>

fun children :: "node \<Rightarrow> node list" where
  "children (Tag n cls attrs cs) = cs"
| "children (NavigableString s) = []"
| "children (Comment s) = []"

text \<open>\<open>element.descendants\<close>: every node below the element, in document order.\<close>

fun descendants :: "node \<Rightarrow> node list" where
  "descendants (Tag n cls attrs cs) = concat (map (\<lambda>c. c # descendants c) cs)"
| "descendants (NavigableString s) = []"
| "descendants (Comment s) = []"

text \<open>
  The search criteria of \<open>find\<close> and \<open>find_all\<close>. A keyword \<open>class_\<close> matches a tag
  one of whose class tokens is the value, or whose tokens joined by blanks are the
  value; any other keyword matches a tag whose attribute is the value.
\<close>

definition has_name :: "string \<Rightarrow> node \<Rightarrow> bool" where
  "has_name n e = (name e = Some n)"

definition has_class :: "string \<Rightarrow> node \<Rightarrow> bool" where
  "has_class v e =
     (case get_class e of
        None \<Rightarrow> False
      | Some toks \<Rightarrow> v \<in> set toks \<or> join '' '' toks = v)"

definition has_attr :: "string \<Rightarrow> string \<Rightarrow> node \<Rightarrow> bool" where
  "has_attr key v e = (get e key = Some v)"

definition find_all :: "(node \<Rightarrow> bool) \<Rightarrow> node \<Rightarrow> node list" where
  "find_all crit e = filter crit (descendants e)"

definition find_first :: "(node \<Rightarrow> bool) \<Rightarrow> node \<Rightarrow> node option" where
  "find_first crit e = (case find_all crit e of [] \<Rightarrow> None | x # _ \<Rightarrow> Some x)"

text \<open>
  \<open>str.isspace\<close> on the code points below 256, and the three strips without
  argument.
\<close>

definition py_isspace :: "char \<Rightarrow> bool" where
  "py_isspace c =
     (c \<in> set [CHR 0x09, CHR 0x0A, CHR 0x0B, CHR 0x0C, CHR 0x0D, CHR 0x1C, CHR 0x1D,
               CHR 0x1E, CHR 0x1F, CHR 0x20, CHR 0x85, CHR 0xA0])"

definition lstrip :: "string \<Rightarrow> string" where
  "lstrip s = dropWhile py_isspace s"

definition rstrip :: "string \<Rightarrow> string" where
  "rstrip s = rev (dropWhile py_isspace (rev s))"

definition strip :: "string \<Rightarrow> string" where
  "strip s = rstrip (lstrip s)"

text \<open>
  \<open>element.get_text()\<close> and \<open>element.text\<close> concatenate the text nodes below a tag;
  \<open>element.get_text(strip=True)\<close> strips each of them first and drops those that
  become empty.
\<close>

definition all_strings :: "node \<Rightarrow> string list" where
  "all_strings e =
     List.map_filter (\<lambda>d. case d of NavigableString s \<Rightarrow> Some s | _ \<Rightarrow> None) (descendants e)"

definition get_text :: "node \<Rightarrow> string" where
  "get_text e = concat (all_strings e)"

definition get_text_strip :: "node \<Rightarrow> string" where
  "get_text_strip e = concat (filter (\<lambda>s. s \<noteq> []) (map strip (all_strings e)))"

text \<open>
  \<open>str(element)\<close>. A string node is its own text. The markup of a tag starts with
  \<open><\<close> and the tag's name; what the library prints after the name (attributes,
  children, closing tag) is the parameter \<open>tail\<close>.
\<close>

fun str_of :: "(node \<Rightarrow> string) \<Rightarrow> node \<Rightarrow> string" where
  "str_of tail (Tag n cls attrs cs) = ''<'' @ n @ tail (Tag n cls attrs cs)"
| "str_of tail (NavigableString s) = s"
| "str_of tail (Comment s) = s"

section \<open>Body converter\<close>

definition handle_element :: "(node \<Rightarrow> string) \<Rightarrow> node \<Rightarrow> string" where
  "handle_element tail element =
     (if name element = Some ''a''
      then ''['' @ get_text element @ '']('' @ py_str (get element ''href'') @ '')''
      else if name element = Some ''code''
      then ''`'' @ get_text element @ ''`''
      else if startswith (str_of tail element) ''<br''
      then nl @ nl
      else str_of tail element)"

text \<open>
  The body of the loop of \<open>html_to_markdown\<close>: what one child of the post body
  appends to \<open>markdown\<close>, or the exception it raises. \<open>elem.name[1]\<close> raises
  \<open>IndexError\<close> on a name of one character and \<open>int\<close> raises \<open>ValueError\<close> on a
  character that is no digit.
\<close>

definition convert_child :: "(node \<Rightarrow> string) \<Rightarrow> node \<Rightarrow> py_error + string" where
  "convert_child tail elem =
     (if name elem = Some ''p''
      then Inr (concat (map (handle_element tail) (children elem)) @ nl @ nl)
      else if (case name elem of None \<Rightarrow> False | Some n \<Rightarrow> n \<noteq> [] \<and> startswith n ''h'')
      then (let header_text = get_text_strip elem; n = the (name elem)
            in if length n < 2 then Inl IndexError
               else if n ! 1 \<notin> set digits then Inl ValueError
               else let header_level = digit_val (n ! 1)
                    in Inr (replicate (nat header_level) (CHR ''#'') @ '' '' @ header_text
                            @ nl @ nl))
      else if name elem = Some ''figure'' \<and> get_class elem = Some [''highlight'', ''plaintext'']
      then (case find_first (\<lambda>e. has_name ''td'' e \<and> has_class ''code'' e) elem of
              None \<Rightarrow> Inr []
            | Some td_code \<Rightarrow>
                let code_lines = map (\<lambda>span. rstrip (get_text span))
                      (find_all (\<lambda>e. has_name ''span'' e \<and> has_class ''line'' e) td_code)
                in Inr (nl @ ''```'' @ nl @ strip (join nl code_lines) @ nl @ ''```'' @ nl))
      else if name elem = Some ''table''
      then (let headers = map get_text_strip (find_all (has_name ''th'') elem);
                rows = drop 1 (find_all (has_name ''tr'') elem);
                markdown_table = [join '' | '' headers,
                                  join '' | '' (replicate (length headers) ''---'')]
                  @ map (\<lambda>row. join '' | '' (map get_text_strip (find_all (has_name ''td'') row)))
                        rows
            in Inr (join nl markdown_table @ nl @ nl))
      else Inr [])"

fun html_to_markdown_loop ::
  "(node \<Rightarrow> string) \<Rightarrow> string \<Rightarrow> node list \<Rightarrow> py_error + string" where
  "html_to_markdown_loop tail markdown [] = Inr markdown"
| "html_to_markdown_loop tail markdown (elem # elems) =
     (case convert_child tail elem of
        Inl e \<Rightarrow> Inl e
      | Inr s \<Rightarrow> html_to_markdown_loop tail (markdown @ s) elems)"

definition html_to_markdown :: "(node \<Rightarrow> string) \<Rightarrow> node \<Rightarrow> py_error + string" where
  "html_to_markdown tail soup =
     (case find_first (\<lambda>e. has_name ''div'' e \<and> has_class ''post-body'' e) soup of
        None \<Rightarrow> Inr []
      | Some post_body \<Rightarrow>
          (case html_to_markdown_loop tail [] (children post_body) of
             Inl e \<Rightarrow> Inl e
           | Inr markdown \<Rightarrow> Inr (strip markdown)))"

section \<open>Strict extraction and the file pipeline\<close>

text \<open>
  \<open>tag['content']\<close> for each tag of a list, as the list comprehension for \<open>tags\<close>
  evaluates it: the first tag without the attribute raises \<open>KeyError\<close>.
\<close>

fun contents_of :: "node list \<Rightarrow> py_error + string list" where
  "contents_of [] = Inr []"
| "contents_of (t # ts) =
     (case get t ''content'' of
        None \<Rightarrow> Inl KeyError
      | Some c \<Rightarrow> (case contents_of ts of Inl e \<Rightarrow> Inl e | Inr cs \<Rightarrow> Inr (c # cs)))"

text \<open>
  \<open>soup.find('meta', property=p)['content']\<close>: subscripting \<open>None\<close> raises
  \<open>TypeError\<close>, a tag without the attribute raises \<open>KeyError\<close>.
\<close>

definition meta_content :: "node \<Rightarrow> string \<Rightarrow> py_error + string" where
  "meta_content soup p =
     (case find_first (\<lambda>e. has_name ''meta'' e \<and> has_attr ''property'' p e) soup of
        None \<Rightarrow> Inl TypeError
      | Some m \<Rightarrow> (case get m ''content'' of None \<Rightarrow> Inl KeyError | Some c \<Rightarrow> Inr c))"

text \<open>
  The metadata attribute is absent when the page has no \<open>meta\<close> tag of the property,
  or the first such tag has no \<open>content\<close>.
\<close>

definition metadata_absent :: "node \<Rightarrow> string \<Rightarrow> bool" where
  "metadata_absent soup p =
     (case find_first (\<lambda>e. has_name ''meta'' e \<and> has_attr ''property'' p e) soup of
        None \<Rightarrow> True
      | Some m \<Rightarrow> get m ''content'' = None)"

text \<open>
  The dictionary \<open>front_matter\<close> that \<open>process_html_file\<close> fills in, in the order of
  its statements. The time tag it looks up next to the title is never used and its
  lookup cannot fail, so it is left out.
\<close>

definition process_front_matter :: "platform \<Rightarrow> node \<Rightarrow> py_error + front_matter" where
  "process_front_matter pf soup =
     (case find_first (\<lambda>e. has_name ''h1'' e \<and> has_class ''post-title'' e) soup of
        None \<Rightarrow> Inl AttributeError
      | Some title_tag \<Rightarrow>
          let category_tag = find_first (\<lambda>e. has_name ''span'' e \<and> has_attr ''itemprop'' ''name'' e) soup;
              cats = (case category_tag of None \<Rightarrow> None | Some t \<Rightarrow> Some (get_text_strip t))
          in (case meta_content soup ''article:published_time'' of
                Inl e \<Rightarrow> Inl e
              | Inr published \<Rightarrow>
             (case convert_utc_to_timezone pf published ''Asia/Shanghai'' of
                Inl e \<Rightarrow> Inl e
              | Inr upd \<Rightarrow>
             (case meta_content soup ''article:modified_time'' of
                Inl e \<Rightarrow> Inl e
              | Inr modified \<Rightarrow>
             (case convert_utc_to_timezone pf modified ''Asia/Shanghai'' of
                Inl e \<Rightarrow> Inl e
              | Inr dat \<Rightarrow>
             (case contents_of (find_all (\<lambda>e. has_name ''meta'' e
                                    \<and> has_attr ''property'' ''article:tag'' e) soup) of
                Inl e \<Rightarrow> Inl e
              | Inr tgs \<Rightarrow>
                  Inr \<lparr>title = get_text_strip title_tag, updated = upd, date = dat,
                       categories = cats, tags = tgs\<rparr>))))))"

text \<open>The text \<open>process_html_file\<close> writes to the output file.\<close>

definition process_html_file :: "platform \<Rightarrow> (node \<Rightarrow> string) \<Rightarrow> node \<Rightarrow> py_error + string" where
  "process_html_file pf tail soup =
     (case process_front_matter pf soup of
        Inl e \<Rightarrow> Inl e
      | Inr fm \<Rightarrow>
          (case html_to_markdown tail soup of
             Inl e \<Rightarrow> Inl e
           | Inr markdown_content \<Rightarrow> Inr (generate_front_matter fm @ markdown_content)))"

section \<open>Layout of the rendered front matter\<close>

text \<open>
  The lines of the block that \<open>generate_front_matter\<close> returns, written out for
  stating its layout; the block is shown below to be these lines joined by newlines.
  After the final newline \<open>split\<close> yields one more, empty, string.
\<close>

definition front_lines :: "front_matter \<Rightarrow> string list" where
  "front_lines d =
     [''---'', ''title: '' @ title d, ''updated: '' @ updated d, ''date: '' @ date d,
      ''categories: '' @ py_str (categories d)]
     @ (if tags d \<noteq> [] then ''tags:'' # map tag_line (tags d) else [[]])
     @ [''---'', [], []]"

text \<open>The record of the rendering example.\<close>

definition example_front_matter :: front_matter where
  "example_front_matter =
     \<lparr>title = ''A'', updated = ''2024-01-01 00:00:00'', date = ''2024-01-02 00:00:00'',
      categories = Some ''Tech'', tags = [''x'', ''y'']\<rparr>"

section \<open>Example documents\<close>

text \<open>A document whose only content is a post body with the given children.\<close>

definition post_body_of :: "node list \<Rightarrow> node" where
  "post_body_of elems = Tag ''[document]'' None [] [Tag ''div'' (Some [''post-body'']) [] elems]"

text \<open>A serialisation tail for examples: every tag is printed as its name in angle brackets.\<close>

definition example_tail :: "node \<Rightarrow> string" where
  "example_tail e = ''>''"

text \<open>A table of two columns with a header row and two data rows.\<close>

definition example_table :: node where
  "example_table =
     Tag ''table'' None []
       [Tag ''tr'' None [] [Tag ''th'' None [] [NavigableString ''A''],
                            Tag ''th'' None [] [NavigableString ''B'']],
        Tag ''tr'' None [] [Tag ''td'' None [] [NavigableString ''1''],
                            Tag ''td'' None [] [NavigableString ''2'']],
        Tag ''tr'' None [] [Tag ''td'' None [] [NavigableString ''3''],
                            Tag ''td'' None [] [NavigableString ''4'']]]"

text \<open>
  The same table with a line break inside the text of its first data cell.
\<close>

definition example_table_break :: node where
  "example_table_break =
     Tag ''table'' None []
       [Tag ''tr'' None [] [Tag ''th'' None [] [NavigableString ''A''],
                            Tag ''th'' None [] [NavigableString ''B'']],
        Tag ''tr'' None [] [Tag ''td'' None [] [NavigableString (''1'' @ nl @ ''1'')],
                            Tag ''td'' None [] [NavigableString ''2'']],
        Tag ''tr'' None [] [Tag ''td'' None [] [NavigableString ''3''],
                            Tag ''td'' None [] [NavigableString ''4'']]]"

text \<open>
  A highlighted code block as the theme prints it: a blank first line, the three
  lines \<open>a\<close>, \<open>b\<close> and \<open>c\<close>, the first followed by blanks, and a blank last line;
  and a figure of the same class without a code cell.
\<close>

definition example_code_cell :: node where
  "example_code_cell =
     Tag ''td'' (Some [''code'']) []
       [Tag ''pre'' None []
          [Tag ''span'' (Some [''line'']) [] [NavigableString ''  ''], Tag ''br'' None [] [],
           Tag ''span'' (Some [''line'']) [] [NavigableString ''a  ''], Tag ''br'' None [] [],
           Tag ''span'' (Some [''line'']) [] [NavigableString ''b''], Tag ''br'' None [] [],
           Tag ''span'' (Some [''line'']) [] [NavigableString ''c''], Tag ''br'' None [] [],
           Tag ''span'' (Some [''line'']) [] [], Tag ''br'' None [] []]]"

definition example_figure :: node where
  "example_figure =
     Tag ''figure'' (Some [''highlight'', ''plaintext'']) []
       [Tag ''table'' None [] [Tag ''tr'' None [] [example_code_cell]]]"

definition example_empty_figure :: node where
  "example_empty_figure =
     Tag ''figure'' (Some [''highlight'', ''plaintext'']) [] [Tag ''pre'' None [] [NavigableString ''x'']]"

text \<open>
  A page with a title, publication and modification times, two tags and no category,
  and the same page without its modification time.
\<close>

definition example_head :: "node list" where
  "example_head =
     [Tag ''meta'' None [(''property'', ''article:published_time''),
                         (''content'', ''2024-01-01T00:00:00.000Z'')] [],
      Tag ''meta'' None [(''property'', ''article:tag''), (''content'', ''x'')] [],
      Tag ''meta'' None [(''property'', ''article:tag''), (''content'', ''y'')] []]"

definition example_modified :: node where
  "example_modified =
     Tag ''meta'' None [(''property'', ''article:modified_time''),
                        (''content'', ''2024-06-15T10:30:00Z'')] []"

definition example_body :: node where
  "example_body =
     Tag ''body'' None []
       [Tag ''h1'' (Some [''post-title'']) [] [NavigableString ''A''],
        Tag ''div'' (Some [''post-body'']) []
          [Tag ''p'' None []
             [Tag ''a'' None [(''href'', ''http://x'')] [NavigableString ''here'']]]]"

definition example_soup :: node where
  "example_soup =
     Tag ''[document]'' None []
       [Tag ''html'' None []
          [Tag ''head'' None [] (example_head @ [example_modified]), example_body]]"

definition example_soup_unmodified :: node where
  "example_soup_unmodified =
     Tag ''[document]'' None []
       [Tag ''html'' None [] [Tag ''head'' None [] example_head, example_body]]"

text \<open>
  The page with a category-free head whose title runs over two lines, the second
  reading \<open>categories: fake\<close>.
\<close>

definition example_soup_title_break :: node where
  "example_soup_title_break =
     Tag ''[document]'' None []
       [Tag ''html'' None []
          [Tag ''head'' None [] (example_head @ [example_modified]),
           Tag ''body'' None []
             [Tag ''h1'' (Some [''post-title'']) []
                [NavigableString (''My post'' @ nl @ ''categories: fake'')],
              Tag ''div'' (Some [''post-body'']) [] []]]]"

section \<open>Properties of the library model\<close>

subsection \<open>Dates from ordinals\<close>

text \<open>
  Month and day are in range for each of the 365 offsets that can reach
  \<open>month_day\<close>; the year stays within 1..9999 because the ordinal does.
\<close>

lemma month_day_all:
  "list_all (\<lambda>n. \<forall>L. (case month_day n L of (m, d) \<Rightarrow>
      1 \<le> m \<and> m \<le> 12 \<and> 1 \<le> d \<and> d \<le> 31)) [0..364]"
  by code_simp

lemma month_day_bounds:
  assumes "0 \<le> n" "n < 365"
  shows "case month_day n L of (m, d) \<Rightarrow> 1 \<le> m \<and> m \<le> 12 \<and> 1 \<le> d \<and> d \<le> 31"
proof -
  have mem: "n \<in> set [0..364]" using assms by simp
  have "\<forall>L. (case month_day n L of (m, d) \<Rightarrow> 1 \<le> m \<and> m \<le> 12 \<and> 1 \<le> d \<and> d \<le> 31)"
    by (rule bspec [OF month_day_all [unfolded list_all_iff] mem])
  then show ?thesis by (rule spec)
qed

lemma ord2ymd_bounds:
  assumes "0 < n" "n \<le> MAXORDINAL"
  shows "case ord2ymd n of (y, m, d) \<Rightarrow>
      1 \<le> y \<and> y \<le> 9999 \<and> 1 \<le> m \<and> m \<le> 12 \<and> 1 \<le> d \<and> d \<le> 31"
proof -
  define k where "k = n - 1"
  define a where "a = k div 146097"
  define r1 where "r1 = k mod 146097"
  define b where "b = r1 div 36524"
  define r2 where "r2 = r1 mod 36524"
  define c where "c = r2 div 1461"
  define r3 where "r3 = r2 mod 1461"
  define e where "e = r3 div 365"
  define r4 where "r4 = r3 mod 365"
  have k: "0 \<le> k" "k \<le> 3652058" using assms by (simp_all add: k_def MAXORDINAL_def)
  have keq: "k = 146097 * a + r1" by (simp add: a_def r1_def)
  have r1: "0 \<le> r1" "r1 < 146097" by (simp_all add: r1_def)
  have r1eq: "r1 = 36524 * b + r2" by (simp add: b_def r2_def)
  have r2: "0 \<le> r2" "r2 < 36524" by (simp_all add: r2_def)
  have r2eq: "r2 = 1461 * c + r3" by (simp add: c_def r3_def)
  have r3: "0 \<le> r3" "r3 < 1461" by (simp_all add: r3_def)
  have r3eq: "r3 = 365 * e + r4" by (simp add: e_def r4_def)
  have r4: "0 \<le> r4" "r4 < 365" by (simp_all add: r4_def)
  have a: "0 \<le> a" using k by (simp add: a_def pos_imp_zdiv_nonneg_iff)
  have b: "0 \<le> b" using r1 by (simp add: b_def pos_imp_zdiv_nonneg_iff)
  have c: "0 \<le> c" using r2 by (simp add: c_def pos_imp_zdiv_nonneg_iff)
  have e: "0 \<le> e" using r3 by (simp add: e_def pos_imp_zdiv_nonneg_iff)
  have ybound: "400 * a + 100 * b + 4 * c + e \<le> 9999"
    using k keq r1 r1eq r2 r2eq r3 r3eq r4 a b c e by arith
  have ybound': "e \<noteq> 4 \<Longrightarrow> b \<noteq> 4 \<Longrightarrow> 400 * a + 100 * b + 4 * c + e \<le> 9998"
    using k keq r1 r1eq r2 r2eq r3 r3eq r4 a b c e by arith
  have ylow: "e = 4 \<or> b = 4 \<Longrightarrow> 1 \<le> 400 * a + 100 * b + 4 * c + e"
    using a b c e by arith
  have ord: "ord2ymd n = (if e = 4 \<or> b = 4 then (400 * a + 100 * b + 4 * c + e, 12, 31)
      else (400 * a + 100 * b + 4 * c + e + 1, month_day r4 (e = 3 \<and> (c \<noteq> 24 \<or> b = 3))))"
    by (simp add: ord2ymd_def Let_def k_def a_def r1_def b_def r2_def c_def r3_def e_def r4_def)
  show ?thesis
  proof (cases "e = 4 \<or> b = 4")
    case True
    then show ?thesis using ord ybound ylow by auto
  next
    case False
    then have ne: "e \<noteq> 4" "b \<noteq> 4" by auto
    from month_day_bounds[OF r4, of "(e = 3 \<and> (c \<noteq> 24 \<or> b = 3))"]
    show ?thesis using ord False ybound'[OF ne] a b c e by (auto split: prod.splits)
  qed
qed

subsection \<open>Decimal rendering\<close>

lemma digit_char_digit: "k < 10 \<Longrightarrow> digit_char k \<in> set digits"
  unfolding digit_char_def by (rule nth_mem) simp

lemma decimal_small: "n < 10 \<Longrightarrow> decimal n = [digit_char n]"
  by simp

lemma decimal_step: "10 \<le> n \<Longrightarrow> decimal n = decimal (n div 10) @ [digit_char (n mod 10)]"
  by (subst decimal.simps) simp

declare decimal.simps [simp del]

lemma decimal_digits: "set (decimal n) \<subseteq> set digits"
proof (induction n rule: decimal.induct)
  case (1 n)
  show ?case
  proof (cases "n < 10")
    case True
    then show ?thesis using digit_char_digit[of n] by (simp only: decimal_small) simp
  next
    case False
    then have "set (decimal (n div 10)) \<subseteq> set digits" using 1 by simp
    moreover have "digit_char (n mod 10) \<in> set digits" by (rule digit_char_digit) simp
    moreover have "decimal n = decimal (n div 10) @ [digit_char (n mod 10)]"
      using False by (intro decimal_step) simp
    ultimately show ?thesis by (simp only: set_append) simp
  qed
qed

lemma length_decimal_step: "10 \<le> n \<Longrightarrow> length (decimal n) = Suc (length (decimal (n div 10)))"
  by (simp only: decimal_step) simp

lemma length_decimal_1: "n < 10 \<Longrightarrow> length (decimal n) = 1"
  by (simp add: decimal_small)

lemma length_decimal_2: "10 \<le> n \<Longrightarrow> n < 100 \<Longrightarrow> length (decimal n) = 2"
  using length_decimal_1[of "n div 10"] by (simp add: length_decimal_step)

lemma length_decimal_3: "100 \<le> n \<Longrightarrow> n < 1000 \<Longrightarrow> length (decimal n) = 3"
  using length_decimal_2[of "n div 10"] by (simp add: length_decimal_step)

lemma length_decimal_4: "1000 \<le> n \<Longrightarrow> n < 10000 \<Longrightarrow> length (decimal n) = 4"
  using length_decimal_3[of "n div 10"] by (simp add: length_decimal_step)

text \<open>A run of digits has the shape of as many nines.\<close>

lemma shape_digits: "set s \<subseteq> set digits \<Longrightarrow> map shape_char s = replicate (length s) (CHR ''9'')"
  by (induction s) (simp_all add: shape_char_def)

lemma shape_zfill:
  assumes "set s \<subseteq> set digits" "length s \<le> w"
  shows "map shape_char (zfill w s) = replicate w (CHR ''9'')"
proof -
  have z: "shape_char (CHR ''0'') = CHR ''9''" by (simp add: shape_char_def)
  have "map shape_char (zfill w s)
        = replicate (w - length s) (CHR ''9'') @ replicate (length s) (CHR ''9'')"
    using shape_digits[OF assms(1)] by (simp add: zfill_def z)
  also have "\<dots> = replicate w (CHR ''9'')"
    using assms(2) by (simp add: replicate_add[symmetric])
  finally show ?thesis .
qed

lemma length_decimal_le2: "n < 100 \<Longrightarrow> length (decimal n) \<le> 2"
  using length_decimal_1[of n] length_decimal_2[of n] by (cases "n < 10") auto

lemma length_decimal_le4: "n < 10000 \<Longrightarrow> length (decimal n) \<le> 4"
  using length_decimal_1[of n] length_decimal_2[of n] length_decimal_3[of n] length_decimal_4[of n]
  by (cases "n < 10"; cases "n < 100"; cases "n < 1000") auto

lemma replicate_2: "replicate 2 x = [x, x]"
  by (simp add: numeral_2_eq_2)

lemma replicate_4: "replicate 4 x = [x, x, x, x]"
  by (simp add: numeral_eq_Suc)

lemma shape_pad2: "n < 100 \<Longrightarrow> map shape_char (zfill 2 (decimal n)) = ''99''"
  using shape_zfill[OF decimal_digits length_decimal_le2, of n] by (simp add: replicate_2)

lemma shape_year:
  assumes "n < 10000" "pad \<or> 1000 \<le> n"
  shows "map shape_char (if pad then zfill 4 (decimal n) else decimal n) = ''9999''"
proof (cases pad)
  case True
  then show ?thesis
    using shape_zfill[OF decimal_digits length_decimal_le4, of n] assms
    by (simp add: replicate_4)
next
  case False
  then have "1000 \<le> n" using assms by simp
  then have "length (decimal n) = 4" using assms length_decimal_4 by simp
  then show ?thesis using False shape_digits[OF decimal_digits, of n]
    by (simp add: replicate_4)
qed

subsection \<open>Parsed and converted times\<close>

text \<open>
  A time that the constructor accepts, and a time that an addition returns, have
  their fields in range.
\<close>

lemma days_in_month_le: "1 \<le> m \<Longrightarrow> m \<le> 12 \<Longrightarrow> days_in_month y m \<le> 31"
proof -
  assume "1 \<le> m" "m \<le> 12"
  then have "m = 1 \<or> m = 2 \<or> m = 3 \<or> m = 4 \<or> m = 5 \<or> m = 6 \<or> m = 7 \<or> m = 8 \<or> m = 9
      \<or> m = 10 \<or> m = 11 \<or> m = 12" by arith
  then show ?thesis by (auto simp: days_in_month_def DAYS_IN_MONTH_def)
qed

lemma datetime_new_fields:
  "datetime_new y m d H M S us = Inr dt \<Longrightarrow> fields_in_range dt"
  using days_in_month_le[of m y]
  by (auto simp: datetime_new_def fields_in_range_def split: if_splits)

lemma strptime_S_fields: "strptime_S s = Inr dt \<Longrightarrow> fields_in_range dt"
  by (auto simp: strptime_S_def split: sum.splits dest: datetime_new_fields)

lemma strptime_f_fields: "strptime_f s = Inr dt \<Longrightarrow> fields_in_range dt"
  by (auto simp: strptime_f_def split: sum.splits dest: datetime_new_fields)

lemma datetime_add_fields:
  assumes "datetime_add dt secs = Inr lt"
  shows "fields_in_range lt"
proof -
  define total where "total = total_seconds dt + secs"
  define days where "days = total div 86400"
  define s where "s = total mod 86400"
  have s: "0 \<le> s" "s < 86400" by (simp_all add: s_def)
  have rng: "0 < days" "days \<le> MAXORDINAL"
    using assms by (auto simp: datetime_add_def Let_def total_def days_def split: if_splits)
  obtain y m d where ymd: "ord2ymd days = (y, m, d)" by (cases "ord2ymd days") auto
  have lt: "lt = \<lparr>year = y, month = m, day = d, hour = s div 3600,
      minute = s mod 3600 div 60, second = s mod 3600 mod 60, microsecond = microsecond dt\<rparr>"
    using assms rng ymd
    by (simp add: datetime_add_def Let_def total_def[symmetric] days_def[symmetric] s_def[symmetric])
  have b: "1 \<le> y \<and> y \<le> 9999 \<and> 1 \<le> m \<and> m \<le> 12 \<and> 1 \<le> d \<and> d \<le> 31"
    using ord2ymd_bounds[OF rng] ymd by simp
  have h: "0 \<le> s div 3600" "s div 3600 \<le> 23" using s by (simp_all add: pos_imp_zdiv_nonneg_iff)
  have mi: "0 \<le> s mod 3600 div 60" "s mod 3600 div 60 \<le> 59"
    using pos_mod_bound[of 3600 s] pos_mod_sign[of 3600 s] by (simp_all add: pos_imp_zdiv_nonneg_iff)
  have se: "0 \<le> s mod 3600 mod 60" "s mod 3600 mod 60 \<le> 59"
    using pos_mod_bound[of 60 "s mod 3600"] by simp_all
  show ?thesis using b h mi se by (simp add: lt fields_in_range_def)
qed

lemma astimezone_fields:
  "fields_in_range t \<Longrightarrow> astimezone t tz = Inr lt \<Longrightarrow> fields_in_range lt"
  by (cases tz) (auto simp: astimezone_def dest: datetime_add_fields)

lemma astimezone_representable:
  "representable t tz \<Longrightarrow> \<exists>lt. astimezone t tz = Inr lt"
  by (cases tz)
    (auto simp: astimezone_def representable_def datetime_add_def Let_def split: prod.splits)

text \<open>A time with its fields in range is rendered in the shape \<open>YYYY-MM-DD HH:MM:SS\<close>.\<close>

lemma strftime_shape:
  assumes "fields_in_range dt" "pads_year pf \<or> 1000 \<le> year dt"
  shows "is_local_timestamp (strftime pf dt)"
proof -
  have y: "map shape_char (if pads_year pf then zfill 4 (decimal (nat (year dt)))
                           else decimal (nat (year dt))) = ''9999''"
    using assms by (intro shape_year) (auto simp: fields_in_range_def)
  have m: "map shape_char (zfill 2 (decimal (nat (month dt)))) = ''99''"
    using assms by (intro shape_pad2) (auto simp: fields_in_range_def)
  have d: "map shape_char (zfill 2 (decimal (nat (day dt)))) = ''99''"
    using assms by (intro shape_pad2) (auto simp: fields_in_range_def)
  have H: "map shape_char (zfill 2 (decimal (nat (hour dt)))) = ''99''"
    using assms by (intro shape_pad2) (auto simp: fields_in_range_def)
  have M: "map shape_char (zfill 2 (decimal (nat (minute dt)))) = ''99''"
    using assms by (intro shape_pad2) (auto simp: fields_in_range_def)
  have S: "map shape_char (zfill 2 (decimal (nat (second dt)))) = ''99''"
    using assms by (intro shape_pad2) (auto simp: fields_in_range_def)
  have sep: "shape_char (CHR ''-'') = CHR ''-''" "shape_char (CHR '' '') = CHR '' ''"
    "shape_char (CHR '':'') = CHR '':''" by (simp_all add: shape_char_def)
  show ?thesis
    unfolding is_local_timestamp_def strftime_def map_append y m d H M S
    by (simp add: sep)
qed

subsection \<open>The normalizer on accepted input\<close>

lemma parse_cases:
  assumes "strptime_f body = Inr t \<or> (strptime_f body = Inl ValueError \<and> strptime_S body = Inr t)"
  shows "parse_utc body = Inr t"
    and "fields_in_range t"
  using assms by (auto simp: parse_utc_def dest: strptime_f_fields strptime_S_fields)

lemma utc_is_utc: "pytz_timezone pf ''UTC'' = Inr UTC"
  by (simp add: pytz_timezone_def ascii_upper_def)

lemma convert_utc_to_timezone_format:
  "(strptime_f body = Inr t \<or> (strptime_f body = Inl ValueError \<and> strptime_S body = Inr t))
     \<and> pytz_timezone pf zone = Inr tz \<and> representable t tz
   \<longrightarrow> (\<exists>lt. astimezone t tz = Inr lt
          \<and> convert_utc_to_timezone pf (body @ [c]) zone = Inr (strftime pf lt)
          \<and> (pads_year pf \<or> 1000 \<le> year lt \<longrightarrow> is_local_timestamp (strftime pf lt)))"
proof (intro impI, elim conjE)
  assume p: "strptime_f body = Inr t \<or> (strptime_f body = Inl ValueError \<and> strptime_S body = Inr t)"
    and z: "pytz_timezone pf zone = Inr tz" and r: "representable t tz"
  from astimezone_representable[OF r] obtain lt where lt: "astimezone t tz = Inr lt" by blast
  have f: "fields_in_range lt" using parse_cases(2)[OF p] lt by (rule astimezone_fields)
  have "convert_utc_to_timezone pf (body @ [c]) zone = Inr (strftime pf lt)"
    by (simp add: convert_utc_to_timezone_def parse_cases(1)[OF p] utc_is_utc z lt)
  then show "\<exists>lt. astimezone t tz = Inr lt
          \<and> convert_utc_to_timezone pf (body @ [c]) zone = Inr (strftime pf lt)
          \<and> (pads_year pf \<or> 1000 \<le> year lt \<longrightarrow> is_local_timestamp (strftime pf lt))"
    using lt f strftime_shape by blast
qed

subsection \<open>Canonical timestamps are accepted\<close>

lemma zfill_1: "n < 10 \<Longrightarrow> zfill (Suc 0) (decimal n) = [digit_char n]"
  by (simp add: zfill_def decimal_small)

lemma zfill_step:
  "zfill (Suc (Suc w)) (decimal n) = zfill (Suc w) (decimal (n div 10)) @ [digit_char (n mod 10)]"
proof (cases "n < 10")
  case True
  then have "zfill (Suc w) (decimal (n div 10)) = replicate (Suc w) (CHR ''0'')"
    by (simp add: zfill_def decimal_small digit_char_def replicate_append_same)
  then show ?thesis using True by (simp add: zfill_def decimal_small replicate_append_same)
next
  case False
  then show ?thesis by (simp add: zfill_def decimal_step Suc_diff_le)
qed

lemma zfill_2:
  assumes "n < 100"
  shows "zfill 2 (decimal n) = [digit_char (n div 10), digit_char (n mod 10)]"
proof -
  have "n div 10 < 10" using assms by simp
  then show ?thesis by (simp add: numeral_2_eq_2 zfill_step zfill_1)
qed

lemma zfill_4:
  assumes "n < 10000"
  shows "zfill 4 (decimal n) = [digit_char (n div 1000), digit_char (n div 100 mod 10),
           digit_char (n div 10 mod 10), digit_char (n mod 10)]"
proof -
  have 4: "(4::nat) = Suc (Suc (Suc (Suc 0)))" by simp
  have k: "n div 100 < 100" using assms by simp
  have e: "n div 10 div 10 = n div 100" "n div 100 div 10 = n div 1000"
    by (simp_all add: div_mult2_eq[symmetric])
  have "zfill 4 (decimal n)
      = zfill (Suc (Suc 0)) (decimal (n div 100)) @ [digit_char (n div 10 mod 10), digit_char (n mod 10)]"
    unfolding 4 zfill_step e by simp
  also have "zfill (Suc (Suc 0)) (decimal (n div 100))
      = [digit_char (n div 1000), digit_char (n div 100 mod 10)]"
    using zfill_2[OF k] by (simp add: numeral_2_eq_2 e)
  finally show ?thesis by simp
qed

lemma digit_val_digit_char: "k < 10 \<Longrightarrow> digit_val (digit_char k) = int k"
proof -
  assume "k < 10"
  then have "k = 0 \<or> k = 1 \<or> k = 2 \<or> k = 3 \<or> k = 4 \<or> k = 5 \<or> k = 6 \<or> k = 7 \<or> k = 8 \<or> k = 9"
    by arith
  then show ?thesis by (auto simp: digit_val_def digit_char_def)
qed

lemma foldl_decimal: "foldl (\<lambda>a c. 10 * a + digit_val c) 0 (decimal n) = int n"
proof (induction n rule: decimal.induct)
  case (1 n)
  show ?case
  proof (cases "n < 10")
    case True
    then show ?thesis by (simp add: decimal_small digit_val_digit_char)
  next
    case False
    then have ih: "foldl (\<lambda>a c. 10 * a + digit_val c) 0 (decimal (n div 10)) = int (n div 10)"
      using 1 by simp
    have "int n = 10 * int (n div 10) + int (n mod 10)"
      by presburger
    then show ?thesis using False ih by (simp add: decimal_step digit_val_digit_char)
  qed
qed

lemma foldl_zeros:
  "foldl (\<lambda>a c. 10 * a + digit_val c) 0 (replicate k (CHR ''0'')) = 0"
  by (induction k) (simp_all add: digit_val_def)

lemma zfill_digits: "set (zfill w (decimal n)) \<subseteq> set digits"
  using decimal_digits[of n] by (auto simp: zfill_def)

lemma dropWhile_blank_digits:
  "set s \<subseteq> set digits \<Longrightarrow> dropWhile (\<lambda>c. c = CHR '' '') s = s"
  by (cases s) auto

lemma int_of_group_zfill: "int_of_group (zfill w (decimal n)) = int n"
  unfolding int_of_group_def dropWhile_blank_digits[OF zfill_digits]
  by (simp add: zfill_def foldl_zeros foldl_decimal)


text \<open>The first match of a pattern, directive by directive.\<close>

lemma first_match_Nil: "first_match [] s = Some ([], s)"
  by (simp add: first_match_def)

lemma first_match_Cons:
  assumes "\<exists>others. List.map_filter (\<lambda>alt. match_alt alt s) d = (g, r) # others"
    and "first_match ds r = Some (gs, r')"
  shows "first_match (d # ds) s = Some (g # gs, r')"
  using assms by (auto simp: first_match_def split: list.splits)

lemma first_match_lit:
  assumes "c \<in> set cls" and "first_match ds r = Some (gs, r')"
  shows "first_match (re_lit cls # ds) (c # r) = Some ([c] # gs, r')"
  using assms by (intro first_match_Cons) (simp_all add: re_lit_def)

lemma first_match_Y:
  assumes "a \<in> set digits" "b \<in> set digits" "c \<in> set digits" "d \<in> set digits"
    and "first_match ds r = Some (gs, r')"
  shows "first_match (re_Y # ds) (a # b # c # d # r) = Some ([a, b, c, d] # gs, r')"
  using assms by (intro first_match_Cons) (simp_all add: re_Y_def)

text \<open>
  A directive whose first alternative has two classes that accept the next two
  characters; and a directive whose first alternative rejects the next character.
\<close>

lemma first_match_two:
  assumes "a \<in> set c1" "b \<in> set c2" and "first_match ds r = Some (gs, r')"
  shows "first_match (([c1, c2] # alts) # ds) (a # b # r) = Some ([a, b] # gs, r')"
  using assms by (intro first_match_Cons) simp_all

lemma first_match_skip:
  assumes "a \<notin> set c1" and "first_match (alts # ds) (a # r) = Some res"
  shows "first_match (((c1 # cs) # alts) # ds) (a # r) = Some res"
  using assms by (simp add: first_match_def)

lemma first_match_m:
  assumes "(a = CHR ''1'' \<and> b \<in> set ''012'') \<or> (a = CHR ''0'' \<and> b \<in> set digits19)"
    and "first_match ds r = Some (gs, r')"
  shows "first_match (re_m # ds) (a # b # r) = Some ([a, b] # gs, r')"
  unfolding re_m_def using assms(1)
proof (elim disjE conjE)
  assume "a = CHR ''1''" "b \<in> set ''012''"
  then show "first_match ([[''1'', ''012''], [''0'', digits19], [digits19]] # ds) (a # b # r)
      = Some ([a, b] # gs, r')"
    by (intro first_match_two assms(2)) simp_all
next
  assume "a = CHR ''0''" "b \<in> set digits19"
  then show "first_match ([[''1'', ''012''], [''0'', digits19], [digits19]] # ds) (a # b # r)
      = Some ([a, b] # gs, r')"
    by (intro first_match_skip first_match_two assms(2)) simp_all
qed

lemma first_match_d:
  assumes "(a = CHR ''3'' \<and> b \<in> set ''01'') \<or> (a \<in> set ''12'' \<and> b \<in> set digits)
      \<or> (a = CHR ''0'' \<and> b \<in> set digits19)"
    and "first_match ds r = Some (gs, r')"
  shows "first_match (re_d # ds) (a # b # r) = Some ([a, b] # gs, r')"
  unfolding re_d_def using assms(1)
proof (elim disjE conjE)
  assume "a = CHR ''3''" "b \<in> set ''01''"
  then show "first_match ([[''3'', ''01''], [''12'', digits], [''0'', digits19], [digits19],
      ['' '', digits19]] # ds) (a # b # r) = Some ([a, b] # gs, r')"
    by (intro first_match_two assms(2)) simp_all
next
  assume "a \<in> set ''12''" "b \<in> set digits"
  then show "first_match ([[''3'', ''01''], [''12'', digits], [''0'', digits19], [digits19],
      ['' '', digits19]] # ds) (a # b # r) = Some ([a, b] # gs, r')"
    by (intro first_match_skip first_match_two assms(2)) auto
next
  assume "a = CHR ''0''" "b \<in> set digits19"
  then show "first_match ([[''3'', ''01''], [''12'', digits], [''0'', digits19], [digits19],
      ['' '', digits19]] # ds) (a # b # r) = Some ([a, b] # gs, r')"
    by (intro first_match_skip first_match_two assms(2)) simp_all
qed

lemma first_match_H:
  assumes "(a = CHR ''2'' \<and> b \<in> set ''0123'') \<or> (a \<in> set ''01'' \<and> b \<in> set digits)"
    and "first_match ds r = Some (gs, r')"
  shows "first_match (re_H # ds) (a # b # r) = Some ([a, b] # gs, r')"
  unfolding re_H_def using assms(1)
proof (elim disjE conjE)
  assume "a = CHR ''2''" "b \<in> set ''0123''"
  then show "first_match ([[''2'', ''0123''], [''01'', digits], [digits]] # ds) (a # b # r)
      = Some ([a, b] # gs, r')"
    by (intro first_match_two assms(2)) simp_all
next
  assume "a \<in> set ''01''" "b \<in> set digits"
  then show "first_match ([[''2'', ''0123''], [''01'', digits], [digits]] # ds) (a # b # r)
      = Some ([a, b] # gs, r')"
    by (intro first_match_skip first_match_two assms(2)) auto
qed

lemma first_match_M:
  assumes "a \<in> set ''012345''" "b \<in> set digits"
    and "first_match ds r = Some (gs, r')"
  shows "first_match (re_M # ds) (a # b # r) = Some ([a, b] # gs, r')"
  unfolding re_M_def by (intro first_match_two assms)

lemma first_match_S:
  assumes "a \<in> set ''012345''" "b \<in> set digits"
    and "first_match ds r = Some (gs, r')"
  shows "first_match (re_S # ds) (a # b # r) = Some ([a, b] # gs, r')"
  unfolding re_S_def using assms(1)
  by (intro first_match_skip first_match_two assms) auto

text \<open>The digits of the fields of a valid time are accepted by their directives.\<close>

lemma month_digits_all:
  "list_all (\<lambda>n. (digit_char (n div 10) = CHR ''1'' \<and> digit_char (n mod 10) \<in> set ''012'')
       \<or> (digit_char (n div 10) = CHR ''0'' \<and> digit_char (n mod 10) \<in> set digits19)) [1..<13]"
  by code_simp

lemma day_digits_all:
  "list_all (\<lambda>n. (digit_char (n div 10) = CHR ''3'' \<and> digit_char (n mod 10) \<in> set ''01'')
       \<or> (digit_char (n div 10) \<in> set ''12'' \<and> digit_char (n mod 10) \<in> set digits)
       \<or> (digit_char (n div 10) = CHR ''0'' \<and> digit_char (n mod 10) \<in> set digits19)) [1..<32]"
  by code_simp

lemma hour_digits_all:
  "list_all (\<lambda>n. (digit_char (n div 10) = CHR ''2'' \<and> digit_char (n mod 10) \<in> set ''0123'')
       \<or> (digit_char (n div 10) \<in> set ''01'' \<and> digit_char (n mod 10) \<in> set digits)) [0..<24]"
  by code_simp

lemma sixty_digits_all:
  "list_all (\<lambda>n. digit_char (n div 10) \<in> set ''012345'' \<and> digit_char (n mod 10) \<in> set digits)
     [0..<60]"
  by code_simp

lemma month_digits:
  assumes "1 \<le> n" "n \<le> 12"
  shows "(digit_char (n div 10) = CHR ''1'' \<and> digit_char (n mod 10) \<in> set ''012'')
       \<or> (digit_char (n div 10) = CHR ''0'' \<and> digit_char (n mod 10) \<in> set digits19)"
proof -
  have "n \<in> set [1..<13]" using assms by simp
  then show ?thesis by (rule bspec [OF month_digits_all [unfolded list_all_iff]])
qed

lemma day_digits:
  assumes "1 \<le> n" "n \<le> 31"
  shows "(digit_char (n div 10) = CHR ''3'' \<and> digit_char (n mod 10) \<in> set ''01'')
       \<or> (digit_char (n div 10) \<in> set ''12'' \<and> digit_char (n mod 10) \<in> set digits)
       \<or> (digit_char (n div 10) = CHR ''0'' \<and> digit_char (n mod 10) \<in> set digits19)"
proof -
  have "n \<in> set [1..<32]" using assms by simp
  then show ?thesis by (rule bspec [OF day_digits_all [unfolded list_all_iff]])
qed

lemma hour_digits:
  assumes "n \<le> 23"
  shows "(digit_char (n div 10) = CHR ''2'' \<and> digit_char (n mod 10) \<in> set ''0123'')
       \<or> (digit_char (n div 10) \<in> set ''01'' \<and> digit_char (n mod 10) \<in> set digits)"
proof -
  have "n \<in> set [0..<24]" using assms by simp
  then show ?thesis by (rule bspec [OF hour_digits_all [unfolded list_all_iff]])
qed

lemma sixty_digits:
  assumes "n \<le> 59"
  shows "digit_char (n div 10) \<in> set ''012345'' \<and> digit_char (n mod 10) \<in> set digits"
proof -
  have "n \<in> set [0..<60]" using assms by simp
  then show ?thesis by (rule bspec [OF sixty_digits_all [unfolded list_all_iff]])
qed

text \<open>The pattern without a fraction on a canonical timestamp.\<close>

lemma first_match_iso_whole:
  assumes "fields_in_range t"
    and "first_match ds r = Some (gs, r')"
  shows "first_match ([re_Y, re_lit ''-'', re_m, re_lit ''-'', re_d, re_lit ''Tt'',
                     re_H, re_lit '':'', re_M, re_lit '':'', re_S] @ ds)
           (iso_whole (year t) (month t) (day t) (hour t) (minute t) (second t) @ r)
         = Some ([zfill 4 (decimal (nat (year t))), ''-'', zfill 2 (decimal (nat (month t))), ''-'',
                  zfill 2 (decimal (nat (day t))), ''T'', zfill 2 (decimal (nat (hour t))), '':'',
                  zfill 2 (decimal (nat (minute t))), '':'', zfill 2 (decimal (nat (second t)))]
                 @ gs, r')"
proof -
  have y: "nat (year t) < 10000" and m: "1 \<le> nat (month t)" "nat (month t) \<le> 12"
    and d: "1 \<le> nat (day t)" "nat (day t) \<le> 31" and H: "nat (hour t) \<le> 23"
    and M: "nat (minute t) \<le> 59" and S: "nat (second t) \<le> 59"
    using assms(1) by (auto simp: fields_in_range_def)
  have y4: "nat (year t) div 1000 < 10" "nat (year t) div 100 mod 10 < 10"
    "nat (year t) div 10 mod 10 < 10" "nat (year t) mod 10 < 10"
    using y by simp_all
  have lt: "nat (month t) < 100" "nat (day t) < 100" "nat (hour t) < 100" "nat (minute t) < 100"
    "nat (second t) < 100"
    using m d H M S by simp_all
  show ?thesis
    unfolding iso_whole_def zfill_4[OF y] zfill_2[OF lt(1)] zfill_2[OF lt(2)] zfill_2[OF lt(3)]
      zfill_2[OF lt(4)] zfill_2[OF lt(5)] append.simps append_assoc
    by (intro first_match_Y first_match_lit first_match_m first_match_d first_match_H
        first_match_M first_match_S assms(2) digit_char_digit y4 month_digits day_digits
        hour_digits m d H conjunct1[OF sixty_digits] conjunct2[OF sixty_digits] M S)
      simp_all
qed

lemma datetime_new_Inr:
  assumes "datetime_new y m d H M S us = Inr t"
  shows "year t = y" "month t = m" "day t = d" "hour t = H" "minute t = M" "second t = S"
    "microsecond t = us" "fields_in_range t"
  using assms datetime_new_fields[OF assms]
  by (auto simp: datetime_new_def split: if_splits)

lemma datetime_new_microsecond:
  assumes "datetime_new y m d H M S 0 = Inr t" "0 \<le> us" "us \<le> 999999"
  shows "datetime_new y m d H M S us = Inr (t\<lparr>microsecond := us\<rparr>)"
  using assms by (auto simp: datetime_new_def split: if_splits)

lemma strptime_S_iso_whole:
  assumes "datetime_new y m d H M S 0 = Inr t"
  shows "strptime_S (iso_whole y m d H M S) = Inr t"
proof -
  note f = datetime_new_Inr[OF assms]
  have nn: "0 \<le> y" "0 \<le> m" "0 \<le> d" "0 \<le> H" "0 \<le> M" "0 \<le> S"
    using f by (auto simp: fields_in_range_def)
  have "first_match ([re_Y, re_lit ''-'', re_m, re_lit ''-'', re_d, re_lit ''Tt'',
                     re_H, re_lit '':'', re_M, re_lit '':'', re_S] @ [])
           (iso_whole (year t) (month t) (day t) (hour t) (minute t) (second t) @ [])
         = Some ([zfill 4 (decimal (nat (year t))), ''-'', zfill 2 (decimal (nat (month t))), ''-'',
                  zfill 2 (decimal (nat (day t))), ''T'', zfill 2 (decimal (nat (hour t))), '':'',
                  zfill 2 (decimal (nat (minute t))), '':'', zfill 2 (decimal (nat (second t)))]
                 @ [], [])"
    by (rule first_match_iso_whole[OF f(8) first_match_Nil])
  then show ?thesis
    using assms nn by (simp add: strptime_S_def re_match_def f int_of_group_zfill)
qed

text \<open>A match of a pattern with a literal has a character of the literal in the text.\<close>

lemma match_alt_rest: "match_alt alt s = Some (g, r) \<Longrightarrow> s = g @ r"
  by (induction alt s arbitrary: g r rule: match_alt.induct)
    (auto split: if_splits option.splits)

lemma match_alt_lit: "match_alt [cls] s = Some (g, r) \<Longrightarrow> \<exists>c \<in> set cls. c \<in> set s"
  by (cases s) (auto split: if_splits)

lemma match_seq_lit:
  assumes "p \<in> set (match_seq ds s)" "re_lit cls \<in> set ds"
  shows "\<exists>c \<in> set cls. c \<in> set s"
  using assms
proof (induction ds arbitrary: s p)
  case Nil
  then show ?case by simp
next
  case (Cons d ds)
  from Cons.prems(1) obtain alt g r0 p' where alt: "alt \<in> set d" "match_alt alt s = Some (g, r0)"
    and p': "p' \<in> set (match_seq ds r0)"
    by (auto simp: List.map_filter_def)
  have s: "s = g @ r0" using alt(2) by (rule match_alt_rest)
  show ?case
  proof (cases "d = re_lit cls")
    case True
    then have "alt = [cls]" using alt(1) by (simp add: re_lit_def)
    then show ?thesis using alt(2) match_alt_lit by blast
  next
    case False
    then have "re_lit cls \<in> set ds" using Cons.prems(2) by simp
    from Cons.IH[OF p' this] show ?thesis using s by auto
  qed
qed

lemma re_match_no_lit:
  assumes "re_lit cls \<in> set ds" "\<forall>c \<in> set cls. c \<notin> set s"
  shows "re_match ds s = Inl ValueError"
proof -
  have "match_seq ds s = []"
  proof (cases "match_seq ds s")
    case Nil
    then show ?thesis .
  next
    case (Cons p ps)
    then have "p \<in> set (match_seq ds s)" by simp
    from match_seq_lit[OF this assms(1)] assms(2) show ?thesis by blast
  qed
  then show ?thesis by (simp add: re_match_def first_match_def)
qed

lemma iso_whole_no_point: "CHR ''.'' \<notin> set (iso_whole y m d H M S)"
  using zfill_digits by (fastforce simp: iso_whole_def)

lemma strptime_f_iso_whole: "strptime_f (iso_whole y m d H M S) = Inl ValueError"
proof -
  have "re_match [re_Y, re_lit ''-'', re_m, re_lit ''-'', re_d, re_lit ''Tt'',
                     re_H, re_lit '':'', re_M, re_lit '':'', re_S, re_lit ''.'', re_f]
          (iso_whole y m d H M S) = Inl ValueError"
    using iso_whole_no_point[of y m d H M S] by (intro re_match_no_lit[where cls = "''.''"]) simp_all
  then show ?thesis by (simp add: strptime_f_def)
qed

text \<open>The fraction: the longest alternative that fits is the whole of it.\<close>

lemma match_alt_replicate:
  "match_alt (replicate k cls) s
   = (if k \<le> length s \<and> set (take k s) \<subseteq> set cls then Some (take k s, drop k s) else None)"
proof (induction k arbitrary: s)
  case 0
  then show ?case by simp
next
  case (Suc k)
  then show ?case by (cases s) auto
qed

lemma first_match_f:
  assumes "is_fraction fr"
  shows "first_match [re_f] fr = Some ([fr], [])"
proof -
  have d: "set fr \<subseteq> set digits" and "1 \<le> length fr" "length fr \<le> 6"
    using assms by (simp_all add: is_fraction_def)
  then have "length fr = 1 \<or> length fr = 2 \<or> length fr = 3 \<or> length fr = 4 \<or> length fr = 5
      \<or> length fr = 6"
    by arith
  then have "\<exists>others. List.map_filter (\<lambda>alt. match_alt alt fr)
      (map (\<lambda>k. replicate k digits) [6, 5, 4, 3, 2, 1]) = (fr, []) # others"
    using d by (elim disjE) (simp_all add: match_alt_replicate del: replicate.simps replicate_Suc)
  then show ?thesis
    unfolding re_f_def by (rule first_match_Cons) (rule first_match_Nil)
qed

lemma digit_val_range: "c \<in> set digits \<Longrightarrow> 0 \<le> digit_val c \<and> digit_val c \<le> 9"
  by (auto simp: digit_val_def)

lemma digits_value_bound:
  "set s \<subseteq> set digits \<Longrightarrow>
   0 \<le> foldl (\<lambda>a c. 10 * a + digit_val c) 0 s
   \<and> foldl (\<lambda>a c. 10 * a + digit_val c) 0 s < 10 ^ length s"
proof (induction s rule: rev_induct)
  case Nil
  then show ?case by simp
next
  case (snoc c s)
  then have "c \<in> set digits" and "set s \<subseteq> set digits" by simp_all
  from digit_val_range[OF this(1)] snoc.IH[OF this(2)] show ?case by simp
qed

lemma fraction_value:
  assumes "is_fraction fr"
  shows "0 \<le> int_of_group (fr @ replicate (6 - length fr) (CHR ''0''))"
    and "int_of_group (fr @ replicate (6 - length fr) (CHR ''0'')) \<le> 999999"
proof -
  let ?s = "fr @ replicate (6 - length fr) (CHR ''0'')"
  have s: "set ?s \<subseteq> set digits" and l: "length ?s = 6"
    using assms by (auto simp: is_fraction_def)
  have "int_of_group ?s = foldl (\<lambda>a c. 10 * a + digit_val c) 0 ?s"
    unfolding int_of_group_def dropWhile_blank_digits[OF s] ..
  with digits_value_bound[OF s] l
  show "0 \<le> int_of_group ?s" and "int_of_group ?s \<le> 999999" by simp_all
qed

lemma strptime_f_iso_fraction:
  assumes "datetime_new y m d H M S 0 = Inr t" "is_fraction fr"
  shows "strptime_f (iso_whole y m d H M S @ ''.'' @ fr)
         = Inr (t\<lparr>microsecond := int_of_group (fr @ replicate (6 - length fr) (CHR ''0''))\<rparr>)"
proof -
  note f = datetime_new_Inr[OF assms(1)]
  have nn: "0 \<le> y" "0 \<le> m" "0 \<le> d" "0 \<le> H" "0 \<le> M" "0 \<le> S"
    using f by (auto simp: fields_in_range_def)
  have tail: "first_match [re_lit ''.'', re_f] (''.'' @ fr) = Some ([''.'', fr], [])"
    using first_match_lit[OF _ first_match_f[OF assms(2)], of "CHR ''.''" "''.''"] by simp
  have "first_match ([re_Y, re_lit ''-'', re_m, re_lit ''-'', re_d, re_lit ''Tt'',
                     re_H, re_lit '':'', re_M, re_lit '':'', re_S] @ [re_lit ''.'', re_f])
           (iso_whole (year t) (month t) (day t) (hour t) (minute t) (second t) @ ''.'' @ fr)
         = Some ([zfill 4 (decimal (nat (year t))), ''-'', zfill 2 (decimal (nat (month t))), ''-'',
                  zfill 2 (decimal (nat (day t))), ''T'', zfill 2 (decimal (nat (hour t))), '':'',
                  zfill 2 (decimal (nat (minute t))), '':'', zfill 2 (decimal (nat (second t)))]
                 @ [''.'', fr], [])"
    by (rule first_match_iso_whole[OF f(8) tail])
  then have "strptime_f (iso_whole y m d H M S @ ''.'' @ fr)
      = datetime_new y m d H M S (int_of_group (fr @ replicate (6 - length fr) (CHR ''0'')))"
    using nn by (simp add: strptime_f_def re_match_def f int_of_group_zfill)
  then show ?thesis
    using datetime_new_microsecond[OF assms(1) fraction_value[OF assms(2)]] by simp
qed

subsection \<open>The examples of the normalizer\<close>

lemma strftime_2024_06_15:
  "strftime pf \<lparr>year = 2024, month = 6, day = 15, hour = 18, minute = 30, second = 0,
      microsecond = us\<rparr> = ''2024-06-15 18:30:00''"
proof -
  have "decimal 2024 = ''2024''" "zfill 4 ''2024'' = ''2024''" "zfill 2 (decimal 6) = ''06''"
    "zfill 2 (decimal 15) = ''15''" "zfill 2 (decimal 18) = ''18''"
    "zfill 2 (decimal 30) = ''30''" "zfill 2 (decimal 0) = ''00''"
    by code_simp+
  then show ?thesis by (simp add: strftime_def)
qed

lemma strftime_2024_01_01:
  "strftime pf \<lparr>year = 2024, month = 1, day = 1, hour = 0, minute = 0, second = 0,
      microsecond = us\<rparr> = ''2024-01-01 00:00:00''"
proof -
  have "decimal 2024 = ''2024''" "zfill 4 ''2024'' = ''2024''" "zfill 2 (decimal 1) = ''01''"
     "zfill 2 (decimal 0) = ''00''"
    by code_simp+
  then show ?thesis by (simp add: strftime_def)
qed

lemma parse_whole_example:
  "parse_utc ''2024-06-15T10:30:00'' = Inr \<lparr>year = 2024, month = 6, day = 15, hour = 10,
      minute = 30, second = 0, microsecond = 0\<rparr>"
  by code_simp

lemma parse_fraction_example:
  "parse_utc ''2024-01-01T00:00:00.000'' = Inr \<lparr>year = 2024, month = 1, day = 1, hour = 0,
      minute = 0, second = 0, microsecond = 0\<rparr>"
  by code_simp

lemma add_example:
  "datetime_add \<lparr>year = 2024, month = 6, day = 15, hour = 10, minute = 30, second = 0,
      microsecond = 0\<rparr> 28800
   = Inr \<lparr>year = 2024, month = 6, day = 15, hour = 18, minute = 30, second = 0,
      microsecond = 0\<rparr>"
  by code_simp

lemma shanghai_not_utc: "map ascii_upper ''Asia/Shanghai'' \<noteq> ''UTC''"
  by simp

lemma shanghai_example:
  assumes "tz_database pf ''Asia/Shanghai'' = Some z"
    and "z \<lparr>year = 2024, month = 6, day = 15, hour = 10, minute = 30, second = 0,
            microsecond = 0\<rparr> = 28800"
  shows "convert_utc_to_timezone pf ''2024-06-15T10:30:00Z'' ''Asia/Shanghai''
         = Inr ''2024-06-15 18:30:00''"
proof -
  have z: "pytz_timezone pf ''Asia/Shanghai'' = Inr (Zone z)"
    using assms(1) shanghai_not_utc by (simp add: pytz_timezone_def)
  show ?thesis
    by (simp add: convert_utc_to_timezone_def parse_whole_example utc_is_utc z astimezone_def
        assms(2) add_example strftime_2024_06_15)
qed

lemma utc_example:
  "convert_utc_to_timezone pf ''2024-01-01T00:00:00.000Z'' ''UTC'' = Inr ''2024-01-01 00:00:00''"
  by (simp add: convert_utc_to_timezone_def parse_fraction_example utc_is_utc astimezone_def
      strftime_2024_01_01)

section \<open>Claims about the timezone normalizer\<close>

text \<open>
  C1, as amended. Every timestamp \<open>YYYY-MM-DDTHH:MM:SS\<close> of a valid date and time is
  rejected by the pattern with a fraction and accepted by the pattern without, and
  with a point and one to six digits appended it is accepted by the pattern with a
  fraction. Let the text before the last character of the input be accepted by the
  pattern with a fraction, or be rejected by it and accepted by the pattern without;
  let the zone be known, and the converted time representable. Then
  \<open>convert_utc_to_timezone\<close> returns the accepted time, moved to the zone and rendered
  by \<open>strftime\<close>, and the result has the shape \<open>YYYY-MM-DD HH:MM:SS\<close> when the platform
  pads years or the local year has four digits. On every platform whose database has
  Asia/Shanghai eight hours east of UTC at that time, \<open>2024-06-15T10:30:00Z\<close> gives
  \<open>2024-06-15 18:30:00\<close>; on every platform \<open>2024-01-01T00:00:00.000Z\<close> in UTC gives
  \<open>2024-01-01 00:00:00\<close>.
\<close>

theorem convert_utc_to_timezone_spec:
  "(datetime_new y m d H M S 0 = Inr t0
    \<longrightarrow> strptime_f (iso_whole y m d H M S) = Inl ValueError
        \<and> strptime_S (iso_whole y m d H M S) = Inr t0
        \<and> (is_fraction fr
           \<longrightarrow> strptime_f (iso_whole y m d H M S @ ''.'' @ fr)
               = Inr (t0\<lparr>microsecond := int_of_group (fr @ replicate (6 - length fr) (CHR ''0''))\<rparr>)))
   \<and> ((strptime_f body = Inr t \<or> (strptime_f body = Inl ValueError \<and> strptime_S body = Inr t))
      \<and> pytz_timezone pf zone = Inr tz \<and> representable t tz
    \<longrightarrow> (\<exists>lt. astimezone t tz = Inr lt
           \<and> convert_utc_to_timezone pf (body @ [c]) zone = Inr (strftime pf lt)
           \<and> (pads_year pf \<or> 1000 \<le> year lt \<longrightarrow> is_local_timestamp (strftime pf lt))))
   \<and> (tz_database pf ''Asia/Shanghai'' = Some z
        \<and> z \<lparr>year = 2024, month = 6, day = 15, hour = 10, minute = 30, second = 0,
              microsecond = 0\<rparr> = 28800
      \<longrightarrow> convert_utc_to_timezone pf ''2024-06-15T10:30:00Z'' ''Asia/Shanghai''
          = Inr ''2024-06-15 18:30:00'')
   \<and> convert_utc_to_timezone pf ''2024-01-01T00:00:00.000Z'' ''UTC''
       = Inr ''2024-01-01 00:00:00''"
  using convert_utc_to_timezone_format[of body t pf zone tz c] shanghai_example[of pf z]
    utc_example[of pf] strptime_f_iso_whole[of y m d H M S]
    strptime_S_iso_whole[of y m d H M S t0] strptime_f_iso_fraction[of y m d H M S t0 fr]
  by blast

text \<open>
  The hypotheses of the theorem hold for \<open>2024-06-15T10:30:00Z\<close> and Asia/Shanghai on
  the example platform, and the theorem gives the parsed time, the converted time
  and its shape.
\<close>

theorem convert_utc_to_timezone_spec_witness:
  "datetime_new 2024 6 15 10 30 0 0 = Inr \<lparr>year = 2024, month = 6, day = 15, hour = 10,
        minute = 30, second = 0, microsecond = 0\<rparr>
   \<and> is_fraction ''000''
   \<and> iso_whole 2024 6 15 10 30 0 = ''2024-06-15T10:30:00''
   \<and> strptime_f ''2024-06-15T10:30:00'' = Inl ValueError
   \<and> strptime_S ''2024-06-15T10:30:00'' = Inr \<lparr>year = 2024, month = 6, day = 15, hour = 10,
        minute = 30, second = 0, microsecond = 0\<rparr>
   \<and> strptime_f ''2024-06-15T10:30:00.000'' = Inr \<lparr>year = 2024, month = 6, day = 15, hour = 10,
        minute = 30, second = 0, microsecond = 0\<rparr>
   \<and> pytz_timezone example_platform ''Asia/Shanghai'' = Inr (Zone shanghai_offset)
   \<and> representable \<lparr>year = 2024, month = 6, day = 15, hour = 10,
        minute = 30, second = 0, microsecond = 0\<rparr> (Zone shanghai_offset)
   \<and> tz_database example_platform ''Asia/Shanghai'' = Some shanghai_offset
   \<and> shanghai_offset \<lparr>year = 2024, month = 6, day = 15, hour = 10, minute = 30, second = 0,
        microsecond = 0\<rparr> = 28800
   \<and> convert_utc_to_timezone example_platform ''2024-06-15T10:30:00Z'' ''Asia/Shanghai''
       = Inr ''2024-06-15 18:30:00''
   \<and> is_local_timestamp ''2024-06-15 18:30:00''"
proof -
  let ?t = "\<lparr>year = 2024, month = 6, day = 15, hour = 10, minute = 30, second = 0,
        microsecond = 0\<rparr>"
  have h0: "datetime_new 2024 6 15 10 30 0 0 = Inr ?t" by code_simp
  have hf: "is_fraction ''000''" by code_simp
  have hi: "iso_whole 2024 6 15 10 30 0 = ''2024-06-15T10:30:00''" by code_simp
  have hv: "int_of_group (''000'' @ replicate (6 - length ''000'') (CHR ''0'')) = 0" by code_simp
  have h3: "pytz_timezone example_platform ''Asia/Shanghai'' = Inr (Zone shanghai_offset)"
    using shanghai_not_utc by (simp add: pytz_timezone_def example_platform_def)
  have h4: "representable ?t (Zone shanghai_offset)" by code_simp
  have h5: "tz_database example_platform ''Asia/Shanghai'' = Some shanghai_offset"
    by (simp add: example_platform_def)
  have h6: "shanghai_offset ?t = 28800" by (simp add: shanghai_offset_def)
  have a: "astimezone ?t (Zone shanghai_offset) = Inr \<lparr>year = 2024, month = 6, day = 15,
      hour = 18, minute = 30, second = 0, microsecond = 0\<rparr>"
    by (simp add: astimezone_def h6 add_example)
  note inst = convert_utc_to_timezone_spec[of 2024 6 15 10 30 0 ?t "''000''"
      "''2024-06-15T10:30:00''" ?t example_platform "''Asia/Shanghai''" "Zone shanghai_offset"
      "CHR ''Z''" shanghai_offset]
  from inst h0 hf
  have "strptime_f (iso_whole 2024 6 15 10 30 0) = Inl ValueError
      \<and> strptime_S (iso_whole 2024 6 15 10 30 0) = Inr ?t
      \<and> strptime_f (iso_whole 2024 6 15 10 30 0 @ ''.'' @ ''000'')
        = Inr (?t\<lparr>microsecond := int_of_group (''000'' @ replicate (6 - length ''000'') (CHR ''0''))\<rparr>)"
    by blast
  then have h1: "strptime_f ''2024-06-15T10:30:00'' = Inl ValueError"
    and h2: "strptime_S ''2024-06-15T10:30:00'' = Inr ?t"
    and h2f: "strptime_f ''2024-06-15T10:30:00.000'' = Inr ?t"
    unfolding hi hv by simp_all
  from inst h1 h2 h3 h4 h5 h6
  have c: "convert_utc_to_timezone example_platform ''2024-06-15T10:30:00Z'' ''Asia/Shanghai''
       = Inr ''2024-06-15 18:30:00''"
    and "\<exists>lt. astimezone ?t (Zone shanghai_offset) = Inr lt
       \<and> (pads_year example_platform \<or> 1000 \<le> year lt
            \<longrightarrow> is_local_timestamp (strftime example_platform lt))"
    by blast+
  then have "is_local_timestamp ''2024-06-15 18:30:00''"
    by (auto simp: a strftime_2024_06_15)
  with h0 hf hi h1 h2 h2f h3 h4 h5 h6 c show ?thesis by blast
qed

text \<open>
  C1 as stated fails: \<open>9999-12-31T23:00:00Z\<close> is accepted by the pattern without a
  fraction and Asia/Shanghai is a known zone, but eight hours later is a day of year
  10000, and the conversion raises \<open>OverflowError\<close> instead of returning a string. And
  where the C library does not pad years, as on the example platform, the accepted
  \<open>0999-06-15T10:30:00Z\<close> is converted in UTC to a text that starts with a year of three
  digits.
\<close>

theorem convert_utc_to_timezone_overflow:
  "strptime_S ''9999-12-31T23:00:00'' = Inr \<lparr>year = 9999, month = 12, day = 31, hour = 23,
        minute = 0, second = 0, microsecond = 0\<rparr>
   \<and> pytz_timezone example_platform ''Asia/Shanghai'' = Inr (Zone shanghai_offset)
   \<and> convert_utc_to_timezone example_platform ''9999-12-31T23:00:00Z'' ''Asia/Shanghai''
       = Inl OverflowError
   \<and> strptime_S ''0999-06-15T10:30:00'' = Inr \<lparr>year = 999, month = 6, day = 15, hour = 10,
        minute = 30, second = 0, microsecond = 0\<rparr>
   \<and> convert_utc_to_timezone example_platform ''0999-06-15T10:30:00Z'' ''UTC''
       = Inr ''999-06-15 10:30:00''
   \<and> \<not> is_local_timestamp ''999-06-15 10:30:00''"
proof -
  have h2: "strptime_S ''9999-12-31T23:00:00'' = Inr \<lparr>year = 9999, month = 12, day = 31,
      hour = 23, minute = 0, second = 0, microsecond = 0\<rparr>"
    by code_simp
  have h3: "pytz_timezone example_platform ''Asia/Shanghai'' = Inr (Zone shanghai_offset)"
    using shanghai_not_utc by (simp add: pytz_timezone_def example_platform_def)
  have h4: "convert_utc_to_timezone example_platform ''9999-12-31T23:00:00Z'' ''Asia/Shanghai''
       = Inl OverflowError"
    by code_simp
  have h5: "strptime_S ''0999-06-15T10:30:00'' = Inr \<lparr>year = 999, month = 6, day = 15,
      hour = 10, minute = 30, second = 0, microsecond = 0\<rparr>"
    by code_simp
  have h6: "convert_utc_to_timezone example_platform ''0999-06-15T10:30:00Z'' ''UTC''
       = Inr ''999-06-15 10:30:00''"
    by code_simp
  have h7: "\<not> is_local_timestamp ''999-06-15 10:30:00''"
    by code_simp
  from h2 h3 h4 h5 h6 h7 show ?thesis by blast
qed

text \<open>
  C8, as amended. \<open>convert_utc_to_timezone\<close> drops the last character of its input
  without looking at it: the outcome for a text followed by any character \<open>c\<close> is the
  outcome for the same text followed by \<open>Z\<close>, whether an error or a time, and any
  input gives what its text before the last character followed by \<open>Z\<close> gives. The
  call with \<open>c\<close> in place of \<open>Z\<close> succeeds, and with the same result, whenever the text
  before the last character is accepted, the zone is known and the converted time is
  representable; this holds in particular for every timestamp
  \<open>YYYY-MM-DDTHH:MM:SS\<close> of a valid date and time, with or without a fraction of one
  to six digits, whose converted time is representable. Thus
  \<open>2024-01-01T00:00:00.000+\<close>, which does not end in \<open>Z\<close>, is converted, not rejected.
\<close>

theorem convert_utc_to_timezone_last_char:
  "convert_utc_to_timezone pf (body @ [c]) zone = convert_utc_to_timezone pf (body @ ''Z'') zone
   \<and> convert_utc_to_timezone pf time_str zone
      = convert_utc_to_timezone pf (butlast time_str @ ''Z'') zone
   \<and> ((strptime_f body = Inr t \<or> (strptime_f body = Inl ValueError \<and> strptime_S body = Inr t))
        \<and> pytz_timezone pf zone = Inr tz \<and> representable t tz
      \<longrightarrow> (\<exists>s. convert_utc_to_timezone pf (body @ ''Z'') zone = Inr s
              \<and> convert_utc_to_timezone pf (body @ [c]) zone = Inr s))
   \<and> (datetime_new y m d H M S 0 = Inr t0 \<and> pytz_timezone pf zone = Inr tz0
        \<and> representable t0 tz0
      \<longrightarrow> (\<exists>s. convert_utc_to_timezone pf (iso_whole y m d H M S @ ''Z'') zone = Inr s
              \<and> convert_utc_to_timezone pf (iso_whole y m d H M S @ [c]) zone = Inr s))
   \<and> (datetime_new y m d H M S 0 = Inr t0 \<and> is_fraction fr \<and> pytz_timezone pf zone = Inr tz0
        \<and> representable
             (t0\<lparr>microsecond := int_of_group (fr @ replicate (6 - length fr) (CHR ''0''))\<rparr>) tz0
      \<longrightarrow> (\<exists>s. convert_utc_to_timezone pf (iso_whole y m d H M S @ ''.'' @ fr @ ''Z'') zone = Inr s
              \<and> convert_utc_to_timezone pf (iso_whole y m d H M S @ ''.'' @ fr @ [c]) zone
                 = Inr s))
   \<and> convert_utc_to_timezone pf ''2024-01-01T00:00:00.000+'' ''UTC'' = Inr ''2024-01-01 00:00:00''"
proof (intro conjI impI)
  show e: "\<And>b. convert_utc_to_timezone pf (b @ [c]) zone = convert_utc_to_timezone pf (b @ ''Z'') zone"
    by (simp add: convert_utc_to_timezone_def)
  show "convert_utc_to_timezone pf time_str zone
      = convert_utc_to_timezone pf (butlast time_str @ ''Z'') zone"
    by (simp add: convert_utc_to_timezone_def)
  show "convert_utc_to_timezone pf ''2024-01-01T00:00:00.000+'' ''UTC'' = Inr ''2024-01-01 00:00:00''"
    by (simp add: convert_utc_to_timezone_def parse_fraction_example utc_is_utc astimezone_def
        strftime_2024_01_01)
  have same: "\<exists>s. convert_utc_to_timezone pf (b @ ''Z'') zone = Inr s
              \<and> convert_utc_to_timezone pf (b @ [c]) zone = Inr s"
    if "strptime_f b = Inr u \<or> (strptime_f b = Inl ValueError \<and> strptime_S b = Inr u)"
      and "pytz_timezone pf zone = Inr z" and "representable u z" for b u z
  proof -
    from that convert_utc_to_timezone_format[of b u pf zone z "CHR ''Z''"]
    obtain lt where "convert_utc_to_timezone pf (b @ ''Z'') zone = Inr (strftime pf lt)"
      by auto
    then show ?thesis using e[of b] by simp
  qed
  {
    assume "(strptime_f body = Inr t \<or> (strptime_f body = Inl ValueError \<and> strptime_S body = Inr t))
        \<and> pytz_timezone pf zone = Inr tz \<and> representable t tz"
    then show "\<exists>s. convert_utc_to_timezone pf (body @ ''Z'') zone = Inr s
              \<and> convert_utc_to_timezone pf (body @ [c]) zone = Inr s"
      using same[of body t tz] by blast
  }
  {
    assume a: "datetime_new y m d H M S 0 = Inr t0 \<and> pytz_timezone pf zone = Inr tz0
        \<and> representable t0 tz0"
    then have "strptime_f (iso_whole y m d H M S) = Inl ValueError"
      and "strptime_S (iso_whole y m d H M S) = Inr t0"
      using strptime_f_iso_whole strptime_S_iso_whole by blast+
    with a show "\<exists>s. convert_utc_to_timezone pf (iso_whole y m d H M S @ ''Z'') zone = Inr s
              \<and> convert_utc_to_timezone pf (iso_whole y m d H M S @ [c]) zone = Inr s"
      using same[of "iso_whole y m d H M S" t0 tz0] by blast
  }
  {
    assume a: "datetime_new y m d H M S 0 = Inr t0 \<and> is_fraction fr
        \<and> pytz_timezone pf zone = Inr tz0
        \<and> representable
             (t0\<lparr>microsecond := int_of_group (fr @ replicate (6 - length fr) (CHR ''0''))\<rparr>) tz0"
    then have "strptime_f (iso_whole y m d H M S @ ''.'' @ fr)
        = Inr (t0\<lparr>microsecond := int_of_group (fr @ replicate (6 - length fr) (CHR ''0''))\<rparr>)"
      using strptime_f_iso_fraction by blast
    with a have "\<exists>s. convert_utc_to_timezone pf ((iso_whole y m d H M S @ ''.'' @ fr) @ ''Z'') zone
                = Inr s
              \<and> convert_utc_to_timezone pf ((iso_whole y m d H M S @ ''.'' @ fr) @ [c]) zone
                = Inr s"
      using same[of "iso_whole y m d H M S @ ''.'' @ fr"
          "t0\<lparr>microsecond := int_of_group (fr @ replicate (6 - length fr) (CHR ''0''))\<rparr>" tz0]
      by blast
    then show "\<exists>s. convert_utc_to_timezone pf (iso_whole y m d H M S @ ''.'' @ fr @ ''Z'') zone
                = Inr s
              \<and> convert_utc_to_timezone pf (iso_whole y m d H M S @ ''.'' @ fr @ [c]) zone
                 = Inr s"
      by simp
  }
qed

text \<open>
  The hypotheses hold for \<open>2024-06-15T10:30:00\<close> and Asia/Shanghai on the example
  platform, also with the fraction \<open>5\<close>, and the theorem gives the result with \<open>X\<close>
  in place of \<open>Z\<close>.
\<close>

theorem convert_utc_to_timezone_last_char_witness:
  "strptime_f ''2024-06-15T10:30:00'' = Inl ValueError
   \<and> strptime_S ''2024-06-15T10:30:00'' = Inr \<lparr>year = 2024, month = 6, day = 15, hour = 10,
        minute = 30, second = 0, microsecond = 0\<rparr>
   \<and> datetime_new 2024 6 15 10 30 0 0 = Inr \<lparr>year = 2024, month = 6, day = 15, hour = 10,
        minute = 30, second = 0, microsecond = 0\<rparr>
   \<and> iso_whole 2024 6 15 10 30 0 = ''2024-06-15T10:30:00''
   \<and> is_fraction ''5''
   \<and> pytz_timezone example_platform ''Asia/Shanghai'' = Inr (Zone shanghai_offset)
   \<and> representable \<lparr>year = 2024, month = 6, day = 15, hour = 10,
        minute = 30, second = 0, microsecond = 0\<rparr> (Zone shanghai_offset)
   \<and> representable \<lparr>year = 2024, month = 6, day = 15, hour = 10,
        minute = 30, second = 0, microsecond = 500000\<rparr> (Zone shanghai_offset)
   \<and> convert_utc_to_timezone example_platform ''2024-06-15T10:30:00Z'' ''Asia/Shanghai''
      = Inr ''2024-06-15 18:30:00''
   \<and> convert_utc_to_timezone example_platform ''2024-06-15T10:30:00X'' ''Asia/Shanghai''
      = Inr ''2024-06-15 18:30:00''
   \<and> convert_utc_to_timezone example_platform ''2024-06-15T10:30:00.5Z'' ''Asia/Shanghai''
      = Inr ''2024-06-15 18:30:00''
   \<and> convert_utc_to_timezone example_platform ''2024-06-15T10:30:00.5X'' ''Asia/Shanghai''
      = Inr ''2024-06-15 18:30:00''"
proof -
  let ?t = "\<lparr>year = 2024, month = 6, day = 15, hour = 10, minute = 30, second = 0,
        microsecond = 0\<rparr>"
  let ?u = "\<lparr>year = 2024, month = 6, day = 15, hour = 10, minute = 30, second = 0,
        microsecond = 500000\<rparr>"
  have h1: "strptime_f ''2024-06-15T10:30:00'' = Inl ValueError" by code_simp
  have h2: "strptime_S ''2024-06-15T10:30:00'' = Inr ?t" by code_simp
  have h0: "datetime_new 2024 6 15 10 30 0 0 = Inr ?t" by code_simp
  have hi: "iso_whole 2024 6 15 10 30 0 = ''2024-06-15T10:30:00''" by code_simp
  have hf: "is_fraction ''5''" by code_simp
  have hm: "?t\<lparr>microsecond := int_of_group (''5'' @ replicate (6 - length ''5'') (CHR ''0''))\<rparr> = ?u"
    by code_simp
  have h3: "pytz_timezone example_platform ''Asia/Shanghai'' = Inr (Zone shanghai_offset)"
    using shanghai_not_utc by (simp add: pytz_timezone_def example_platform_def)
  have h4: "representable ?t (Zone shanghai_offset)" by code_simp
  have h5: "representable ?u (Zone shanghai_offset)" by code_simp
  have z: "convert_utc_to_timezone example_platform ''2024-06-15T10:30:00Z'' ''Asia/Shanghai''
      = Inr ''2024-06-15 18:30:00''"
    by code_simp
  have zf: "convert_utc_to_timezone example_platform ''2024-06-15T10:30:00.5Z'' ''Asia/Shanghai''
      = Inr ''2024-06-15 18:30:00''"
    by code_simp
  note inst = convert_utc_to_timezone_last_char[where pf = example_platform
      and body = "''2024-06-15T10:30:00''" and c = "CHR ''X''" and zone = "''Asia/Shanghai''"
      and time_str = "[]" and t = ?t and tz = "Zone shanghai_offset"
      and y = 2024 and m = 6 and d = 15 and H = 10 and M = 30 and S = 0 and ?t0.0 = ?t
      and ?tz0.0 = "Zone shanghai_offset" and fr = "''5''"]
  from inst h1 h2 h3 h4
  have "\<exists>s. convert_utc_to_timezone example_platform (''2024-06-15T10:30:00'' @ ''Z'') ''Asia/Shanghai'' = Inr s
       \<and> convert_utc_to_timezone example_platform (''2024-06-15T10:30:00'' @ [CHR ''X'']) ''Asia/Shanghai'' = Inr s"
    by blast
  then have x: "convert_utc_to_timezone example_platform ''2024-06-15T10:30:00X'' ''Asia/Shanghai''
      = Inr ''2024-06-15 18:30:00''"
    using z by auto
  from inst h0 hf h3 h5
  have "\<exists>s. convert_utc_to_timezone example_platform
              (iso_whole 2024 6 15 10 30 0 @ ''.'' @ ''5'' @ ''Z'') ''Asia/Shanghai'' = Inr s
       \<and> convert_utc_to_timezone example_platform
              (iso_whole 2024 6 15 10 30 0 @ ''.'' @ ''5'' @ [CHR ''X'']) ''Asia/Shanghai'' = Inr s"
    unfolding hm by blast
  then have xf: "convert_utc_to_timezone example_platform ''2024-06-15T10:30:00.5X'' ''Asia/Shanghai''
      = Inr ''2024-06-15 18:30:00''"
    using zf unfolding hi by auto
  from h1 h2 h0 hi hf h3 h4 h5 z x zf xf show ?thesis by blast
qed

text \<open>
  C8 as stated fails: \<open>9999-12-31T23:00:00\<close> is a valid timestamp, accepted by the
  pattern without a fraction, and Asia/Shanghai is a known zone, but eight hours later
  is a day of year 10000: with \<open>X\<close> in place of the final \<open>Z\<close> the call raises
  \<open>OverflowError\<close>, as it does with \<open>Z\<close>, and does not succeed.
\<close>

theorem convert_utc_to_timezone_last_char_overflow:
  "datetime_new 9999 12 31 23 0 0 0 = Inr \<lparr>year = 9999, month = 12, day = 31, hour = 23,
        minute = 0, second = 0, microsecond = 0\<rparr>
   \<and> strptime_S ''9999-12-31T23:00:00'' = Inr \<lparr>year = 9999, month = 12, day = 31, hour = 23,
        minute = 0, second = 0, microsecond = 0\<rparr>
   \<and> pytz_timezone example_platform ''Asia/Shanghai'' = Inr (Zone shanghai_offset)
   \<and> convert_utc_to_timezone example_platform ''9999-12-31T23:00:00Z'' ''Asia/Shanghai''
       = Inl OverflowError
   \<and> convert_utc_to_timezone example_platform ''9999-12-31T23:00:00X'' ''Asia/Shanghai''
       = Inl OverflowError"
proof -
  have h0: "datetime_new 9999 12 31 23 0 0 0 = Inr \<lparr>year = 9999, month = 12, day = 31,
      hour = 23, minute = 0, second = 0, microsecond = 0\<rparr>"
    by code_simp
  have h2: "strptime_S ''9999-12-31T23:00:00'' = Inr \<lparr>year = 9999, month = 12, day = 31,
      hour = 23, minute = 0, second = 0, microsecond = 0\<rparr>"
    by code_simp
  have h3: "pytz_timezone example_platform ''Asia/Shanghai'' = Inr (Zone shanghai_offset)"
    using shanghai_not_utc by (simp add: pytz_timezone_def example_platform_def)
  have h4: "convert_utc_to_timezone example_platform ''9999-12-31T23:00:00Z'' ''Asia/Shanghai''
       = Inl OverflowError"
    by code_simp
  have h5: "convert_utc_to_timezone example_platform ''9999-12-31T23:00:00X'' ''Asia/Shanghai''
       = Inl OverflowError"
    by code_simp
  from h0 h2 h3 h4 h5 show ?thesis by blast
qed

section \<open>Properties of the front-matter renderer\<close>

lemma split_nl_line: "single_line a \<Longrightarrow> split_nl (a @ CHR 0x0A # b) = a # split_nl b"
  by (induction a) (auto simp: single_line_def split: list.splits)

lemma split_nl_last: "single_line a \<Longrightarrow> split_nl a = [a]"
  by (induction a) (auto simp: single_line_def split: list.splits)

lemma split_nl_join:
  "ls \<noteq> [] \<Longrightarrow> \<forall>l \<in> set ls. single_line l \<Longrightarrow> split_nl (join nl ls) = ls"
proof (induction ls rule: induct_list012)
  case 1
  then show ?case by simp
next
  case (2 x)
  then show ?case by (simp add: split_nl_last)
next
  case (3 x y ys)
  then show ?case by (simp add: split_nl_line)
qed

lemma join_Cons_ne: "ys \<noteq> [] \<Longrightarrow> join sep (x # ys) = x @ sep @ join sep ys"
  by (cases ys) simp_all

lemma join_append:
  "xs \<noteq> [] \<Longrightarrow> ys \<noteq> [] \<Longrightarrow> join sep (xs @ ys) = join sep xs @ sep @ join sep ys"
proof (induction xs rule: induct_list012)
  case 1
  then show ?case by simp
next
  case (2 x)
  then show ?case by (simp add: join_Cons_ne)
next
  case (3 x y zs)
  then show ?case by (simp add: join_Cons_ne)
qed

lemma generate_front_matter_lines: "generate_front_matter d = join nl (front_lines d)"
proof (cases "tags d = []")
  case True
  then show ?thesis by (simp add: generate_front_matter_def front_lines_def)
next
  case False
  then have "join nl (''tags:'' # map tag_line (tags d) @ [''---'', [], []])
      = ''tags:'' @ nl @ join nl (map tag_line (tags d)) @ nl @ ''---'' @ nl @ nl"
    by (simp add: join_Cons_ne join_append)
  then show ?thesis using False
    by (simp add: generate_front_matter_def front_lines_def)
qed

lemma startswith_Nil [simp]: "startswith s [] = True"
  by (simp add: startswith_def)

lemma startswith_Nil_Cons [simp]: "startswith [] (p # ps) = False"
  by (simp add: startswith_def)

lemma startswith_Cons [simp]: "startswith (c # s) (p # ps) = (c = p \<and> startswith s ps)"
  by (auto simp: startswith_def)

lemma filter_tag_lines:
  "filter (\<lambda>l. startswith l ''categories:'') (map tag_line ts) = []"
  by (induction ts) (simp_all add: tag_line_def)

lemma categories_lines:
  "filter (\<lambda>l. startswith l ''categories:'') (front_lines d)
   = [''categories: '' @ py_str (categories d)]"
  by (simp add: front_lines_def filter_tag_lines)

lemma front_lines_single:
  assumes "single_line (title d)" "single_line (updated d)" "single_line (date d)"
    "single_line (py_str (categories d))" "\<forall>t \<in> set (tags d). single_line t"
  shows "\<forall>l \<in> set (front_lines d). single_line l"
  using assms by (auto simp: front_lines_def single_line_def tag_line_def)

lemma categories_line_once:
  assumes "single_line (title d)" "single_line (updated d)" "single_line (date d)"
    "single_line (py_str (categories d))" "\<forall>t \<in> set (tags d). single_line t"
  shows "filter (\<lambda>l. startswith l ''categories:'') (split_nl (generate_front_matter d))
         = [''categories: '' @ py_str (categories d)]"
proof -
  have "front_lines d \<noteq> []" by (simp add: front_lines_def)
  then have "split_nl (generate_front_matter d) = front_lines d"
    using front_lines_single[OF assms] by (simp add: generate_front_matter_lines split_nl_join)
  then show ?thesis by (simp add: categories_lines)
qed

section \<open>Claims about the front-matter renderer\<close>

text \<open>
  C2. For the record with title \<open>A\<close>, updated \<open>2024-01-01 00:00:00\<close>, date
  \<open>2024-01-02 00:00:00\<close>, categories \<open>Tech\<close> and tags \<open>x\<close>, \<open>y\<close>,
  \<open>generate_front_matter\<close> returns exactly the ten lines of the example, each ended
  by a newline (ten newlines in all); and the result is a function of the five fields
  alone: records that agree on them give the same text.
\<close>

theorem generate_front_matter_example:
  "generate_front_matter example_front_matter
     = ''---'' @ nl @ ''title: A'' @ nl @ ''updated: 2024-01-01 00:00:00'' @ nl
       @ ''date: 2024-01-02 00:00:00'' @ nl @ ''categories: Tech'' @ nl @ ''tags:'' @ nl
       @ ''  - x'' @ nl @ ''  - y'' @ nl @ ''---'' @ nl @ nl
   \<and> length (filter (\<lambda>c. c = CHR 0x0A) (generate_front_matter example_front_matter)) = 10
   \<and> (title d = title d' \<and> updated d = updated d' \<and> date d = date d'
        \<and> categories d = categories d' \<and> tags d = tags d'
      \<longrightarrow> generate_front_matter d = generate_front_matter d')"
  by (simp add: generate_front_matter_def Let_def example_front_matter_def tag_line_def)

text \<open>The example record and a copy of it with the tags written again agree on every field.\<close>

theorem generate_front_matter_example_witness:
  "title example_front_matter = title (example_front_matter\<lparr>tags := [''x'', ''y'']\<rparr>)
   \<and> tags example_front_matter = tags (example_front_matter\<lparr>tags := [''x'', ''y'']\<rparr>)
   \<and> generate_front_matter example_front_matter
      = generate_front_matter (example_front_matter\<lparr>tags := [''x'', ''y'']\<rparr>)"
  using generate_front_matter_example
    [of example_front_matter "example_front_matter\<lparr>tags := [''x'', ''y'']\<rparr>"]
  by (simp add: example_front_matter_def)

text \<open>
  C3 on the code. With no tags the block has no \<open>tags:\<close> line, but the closing
  \<open>---\<close> does not follow the categories line at once: an empty line stands between
  them, because the newline that ends the categories line is followed by the newline
  that the closing delimiter begins with. For the example record without tags the
  lines are \<open>---\<close>, the four fields, an empty line, \<open>---\<close> and an empty line.
\<close>

theorem generate_front_matter_empty_tags:
  "generate_front_matter (d\<lparr>tags := []\<rparr>)
     = ''---'' @ nl @ ''title: '' @ title d @ nl @ ''updated: '' @ updated d @ nl
       @ ''date: '' @ date d @ nl @ ''categories: '' @ py_str (categories d) @ nl
       @ nl @ ''---'' @ nl @ nl
   \<and> split_nl (generate_front_matter (example_front_matter\<lparr>tags := []\<rparr>))
     = [''---'', ''title: A'', ''updated: 2024-01-01 00:00:00'', ''date: 2024-01-02 00:00:00'',
        ''categories: Tech'', [], ''---'', [], []]"
  by (simp add: generate_front_matter_def Let_def example_front_matter_def)

text \<open>
  C9, as amended. When \<open>categories\<close> is \<open>None\<close> the block still has its categories
  line, with the value \<open>None\<close>, between the date line and what follows. When title,
  updated, date and every tag are single lines, exactly one line of the block starts
  with \<open>categories:\<close>, whether the category is absent (the line is
  \<open>categories: None\<close>) or a single-line text. And \<open>None\<close> is what the strict
  extraction stores when the page has no \<open>span\<close> with \<open>itemprop="name"\<close>.
\<close>

theorem generate_front_matter_categories_absent:
  "generate_front_matter (d\<lparr>categories := None\<rparr>)
     = ''---'' @ nl @ ''title: '' @ title d @ nl @ ''updated: '' @ updated d @ nl
       @ ''date: '' @ date d @ nl @ ''categories: None'' @ nl
       @ (if tags d \<noteq> [] then ''tags:'' @ nl @ join nl (map tag_line (tags d)) else [])
       @ nl @ ''---'' @ nl @ nl
   \<and> (single_line (title d) \<and> single_line (updated d) \<and> single_line (date d)
        \<and> (\<forall>t \<in> set (tags d). single_line t)
      \<longrightarrow> filter (\<lambda>l. startswith l ''categories:'')
            (split_nl (generate_front_matter (d\<lparr>categories := None\<rparr>)))
          = [''categories: None'']
        \<and> (\<forall>c. single_line c
             \<longrightarrow> filter (\<lambda>l. startswith l ''categories:'')
                   (split_nl (generate_front_matter (d\<lparr>categories := Some c\<rparr>)))
                 = [''categories: '' @ c]))
   \<and> (find_first (\<lambda>e. has_name ''span'' e \<and> has_attr ''itemprop'' ''name'' e) soup = None
        \<and> process_front_matter pf soup = Inr fm
      \<longrightarrow> categories fm = None)"
proof (intro conjI impI allI)
  show "generate_front_matter (d\<lparr>categories := None\<rparr>)
     = ''---'' @ nl @ ''title: '' @ title d @ nl @ ''updated: '' @ updated d @ nl
       @ ''date: '' @ date d @ nl @ ''categories: None'' @ nl
       @ (if tags d \<noteq> [] then ''tags:'' @ nl @ join nl (map tag_line (tags d)) else [])
       @ nl @ ''---'' @ nl @ nl"
    by (simp add: generate_front_matter_def Let_def)
next
  assume a: "single_line (title d) \<and> single_line (updated d) \<and> single_line (date d)
        \<and> (\<forall>t \<in> set (tags d). single_line t)"
  show "filter (\<lambda>l. startswith l ''categories:'')
            (split_nl (generate_front_matter (d\<lparr>categories := None\<rparr>)))
          = [''categories: None'']"
    using categories_line_once[of "d\<lparr>categories := None\<rparr>"] a
    by (simp add: single_line_def)
next
  fix c
  assume a: "single_line (title d) \<and> single_line (updated d) \<and> single_line (date d)
        \<and> (\<forall>t \<in> set (tags d). single_line t)" and c: "single_line c"
  show "filter (\<lambda>l. startswith l ''categories:'')
                   (split_nl (generate_front_matter (d\<lparr>categories := Some c\<rparr>)))
                 = [''categories: '' @ c]"
    using categories_line_once[of "d\<lparr>categories := Some c\<rparr>"] a c
    by simp
next
  assume "find_first (\<lambda>e. has_name ''span'' e \<and> has_attr ''itemprop'' ''name'' e) soup = None
        \<and> process_front_matter pf soup = Inr fm"
  then show "categories fm = None"
    by (auto simp: process_front_matter_def Let_def split: option.splits sum.splits)
qed

text \<open>
  The fields of the example record are single lines, and so is \<open>Tech\<close>; the example
  page has no category and its record has none.
\<close>

theorem generate_front_matter_categories_absent_witness:
  "single_line (title example_front_matter) \<and> single_line (updated example_front_matter)
   \<and> single_line (date example_front_matter)
   \<and> list_all single_line (tags example_front_matter)
   \<and> single_line ''Tech''
   \<and> filter (\<lambda>l. startswith l ''categories:'')
        (split_nl (generate_front_matter (example_front_matter\<lparr>categories := None\<rparr>)))
      = [''categories: None'']
   \<and> filter (\<lambda>l. startswith l ''categories:'')
        (split_nl (generate_front_matter (example_front_matter\<lparr>categories := Some ''Tech''\<rparr>)))
      = [''categories: Tech'']
   \<and> find_first (\<lambda>e. has_name ''span'' e \<and> has_attr ''itemprop'' ''name'' e) example_soup = None
   \<and> process_front_matter example_platform example_soup
      = Inr \<lparr>title = ''A'', updated = ''2024-01-01 08:00:00'', date = ''2024-06-15 18:30:00'',
             categories = None, tags = [''x'', ''y'']\<rparr>"
proof -
  let ?fm = "\<lparr>title = ''A'', updated = ''2024-01-01 08:00:00'', date = ''2024-06-15 18:30:00'',
             categories = None, tags = [''x'', ''y'']\<rparr>"
  have h: "single_line (title example_front_matter) \<and> single_line (updated example_front_matter)
   \<and> single_line (date example_front_matter)
   \<and> (\<forall>t \<in> set (tags example_front_matter). single_line t)"
    by (simp add: example_front_matter_def single_line_def)
  have c: "single_line ''Tech''" by (simp add: single_line_def)
  have f: "find_first (\<lambda>e. has_name ''span'' e \<and> has_attr ''itemprop'' ''name'' e) example_soup
      = None"
    by code_simp
  have r: "process_front_matter example_platform example_soup = Inr ?fm"
    by code_simp
  from generate_front_matter_categories_absent
    [of example_front_matter example_soup example_platform ?fm] h c f r
  show ?thesis by (auto simp: list_all_iff)
qed

text \<open>
  C9 as stated fails: the block does not always have exactly one categories line.
  The title is the text of the \<open>h1\<close> stripped at its ends only, so a title that runs
  over two lines keeps its line break; on the page whose title is \<open>My post\<close> followed
  by the line \<open>categories: fake\<close> and which has no category, the extraction
  succeeds and two lines of the rendered block start with \<open>categories:\<close>.
\<close>

theorem generate_front_matter_categories_twice:
  "find_first (\<lambda>e. has_name ''span'' e \<and> has_attr ''itemprop'' ''name'' e)
       example_soup_title_break = None
   \<and> process_front_matter example_platform example_soup_title_break
      = Inr \<lparr>title = ''My post'' @ nl @ ''categories: fake'', updated = ''2024-01-01 08:00:00'',
             date = ''2024-06-15 18:30:00'', categories = None, tags = [''x'', ''y'']\<rparr>
   \<and> filter (\<lambda>l. startswith l ''categories:'')
        (split_nl (generate_front_matter
           \<lparr>title = ''My post'' @ nl @ ''categories: fake'', updated = ''2024-01-01 08:00:00'',
            date = ''2024-06-15 18:30:00'', categories = None, tags = [''x'', ''y'']\<rparr>))
      = [''categories: fake'', ''categories: None'']"
proof -
  have a: "find_first (\<lambda>e. has_name ''span'' e \<and> has_attr ''itemprop'' ''name'' e)
       example_soup_title_break = None"
    by code_simp
  have b: "process_front_matter example_platform example_soup_title_break
      = Inr \<lparr>title = ''My post'' @ nl @ ''categories: fake'', updated = ''2024-01-01 08:00:00'',
             date = ''2024-06-15 18:30:00'', categories = None, tags = [''x'', ''y'']\<rparr>"
    by code_simp
  have c: "filter (\<lambda>l. startswith l ''categories:'')
        (split_nl (generate_front_matter
           \<lparr>title = ''My post'' @ nl @ ''categories: fake'', updated = ''2024-01-01 08:00:00'',
            date = ''2024-06-15 18:30:00'', categories = None, tags = [''x'', ''y'']\<rparr>))
      = [''categories: fake'', ''categories: None'']"
    by code_simp
  from a b c show ?thesis by blast
qed

section \<open>Properties of the body converter\<close>

lemma find_post_body:
  "find_first (\<lambda>e. has_name ''div'' e \<and> has_class ''post-body'' e) (post_body_of elems)
   = Some (Tag ''div'' (Some [''post-body'']) [] elems)"
  by (simp add: post_body_of_def find_first_def find_all_def has_name_def has_class_def)

lemma html_to_markdown_post_body:
  "html_to_markdown tail (post_body_of elems)
   = (case html_to_markdown_loop tail [] elems of Inl e \<Rightarrow> Inl e | Inr m \<Rightarrow> Inr (strip m))"
  by (simp add: html_to_markdown_def find_post_body)

lemma convert_child_text: "convert_child tail (NavigableString s) = Inr []"
  by (simp add: convert_child_def)

lemma convert_child_hr: "convert_child tail (Tag ''hr'' cls attrs cs) = Inl ValueError"
  by (simp add: convert_child_def Let_def)

lemma convert_child_p:
  "convert_child tail (Tag ''p'' cls attrs cs) = Inr (concat (map (handle_element tail) cs) @ nl @ nl)"
  by (simp add: convert_child_def)

lemma handle_text: "\<not> startswith s ''<br'' \<Longrightarrow> handle_element tail (NavigableString s) = s"
  by (simp add: handle_element_def)

text \<open>
  Text nodes, and tags whose name neither starts with \<open>h\<close> nor is one of \<open>p\<close>,
  \<open>figure\<close> and \<open>table\<close>, are skipped.
\<close>

lemma convert_child_skip:
  assumes "name elem = None \<or> (\<exists>n. name elem = Some n \<and> \<not> startswith n ''h''
      \<and> n \<noteq> ''p'' \<and> n \<noteq> ''figure'' \<and> n \<noteq> ''table'')"
  shows "convert_child tail elem = Inr []"
  using assms by (auto simp: convert_child_def)

lemma get_text_single: "get_text (Tag n cls attrs [NavigableString s]) = s"
  by (simp add: get_text_def all_strings_def)

lemma get_text_strip_single: "get_text_strip (Tag n cls attrs [NavigableString s]) = (if strip s = [] then [] else strip s)"
  by (simp add: get_text_strip_def all_strings_def)

text \<open>The rules of \<open>handle_element\<close>.\<close>

lemma handle_element_cases:
  "handle_element tail (Tag ''a'' cls attrs cs)
     = ''['' @ get_text (Tag ''a'' cls attrs cs) @ '']('' @ py_str (map_of attrs ''href'') @ '')''"
  "handle_element tail (Tag ''code'' cls attrs cs) = ''`'' @ get_text (Tag ''code'' cls attrs cs) @ ''`''"
  "handle_element tail (Tag ''br'' cls attrs cs) = nl @ nl"
  "name e \<noteq> Some ''a'' \<Longrightarrow> name e \<noteq> Some ''code'' \<Longrightarrow> \<not> startswith (str_of tail e) ''<br''
     \<Longrightarrow> handle_element tail e = str_of tail e"
  by (simp_all add: handle_element_def)

subsection \<open>Stripping\<close>

text \<open>
  \<open>rstrip\<close> cuts a run of whitespace off the end and leaves a text that does not end
  in whitespace; \<open>strip\<close> cuts one off both ends and leaves a text that neither
  starts nor ends with whitespace.
\<close>

lemma rstrip_decomp:
  "\<exists>post. s = rstrip s @ post \<and> list_all py_isspace post
      \<and> (rstrip s = [] \<or> \<not> py_isspace (last (rstrip s)))"
proof -
  let ?d = "dropWhile py_isspace (rev s)"
  let ?t = "takeWhile py_isspace (rev s)"
  have "rev s = ?t @ ?d" by simp
  then have "s = rev ?d @ rev ?t" by (metis rev_append rev_rev_ident)
  moreover have "list_all py_isspace (rev ?t)"
    by (auto simp: list_all_iff dest: set_takeWhileD)
  moreover have "rev ?d = [] \<or> \<not> py_isspace (last (rev ?d))"
    using hd_dropWhile[of py_isspace "rev s"] by (cases "?d = []") (simp_all add: last_rev)
  ultimately show ?thesis unfolding rstrip_def by blast
qed

lemma strip_decomp:
  "\<exists>pre post. s = pre @ strip s @ post \<and> list_all py_isspace pre \<and> list_all py_isspace post
      \<and> (strip s = [] \<or> (\<not> py_isspace (hd (strip s)) \<and> \<not> py_isspace (last (strip s))))"
proof -
  let ?l = "dropWhile py_isspace s"
  have s: "s = takeWhile py_isspace s @ ?l" by simp
  have pre: "list_all py_isspace (takeWhile py_isspace s)"
    by (auto simp: list_all_iff dest: set_takeWhileD)
  from rstrip_decomp[of ?l] obtain post where post: "?l = rstrip ?l @ post"
    "list_all py_isspace post" "rstrip ?l = [] \<or> \<not> py_isspace (last (rstrip ?l))"
    by blast
  have hd: "rstrip ?l \<noteq> [] \<Longrightarrow> \<not> py_isspace (hd (rstrip ?l))"
  proof -
    assume ne: "rstrip ?l \<noteq> []"
    then have "?l \<noteq> []" using post(1) by (metis append_is_Nil_conv)
    then have "\<not> py_isspace (hd ?l)" by (rule hd_dropWhile)
    moreover have "hd ?l = hd (rstrip ?l)" using post(1) ne by (metis hd_append2)
    ultimately show ?thesis by simp
  qed
  have "s = takeWhile py_isspace s @ strip s @ post"
    using s post(1) by (simp add: strip_def lstrip_def)
  then show ?thesis using pre post(2,3) hd unfolding strip_def lstrip_def by blast
qed

lemma rstrip_lines:
  "list_all2 (\<lambda>span l. \<exists>post. get_text span = l @ post \<and> list_all py_isspace post
       \<and> (l = [] \<or> \<not> py_isspace (last l)))
     spans (map (\<lambda>span. rstrip (get_text span)) spans)"
  using rstrip_decomp by (simp add: list_all2_map2 list_all2_same)

subsection \<open>The lines of a block\<close>

lemma single_line_join:
  "single_line sep \<Longrightarrow> \<forall>x \<in> set xs. single_line x \<Longrightarrow> single_line (join sep xs)"
  by (induction xs rule: induct_list012) (simp_all add: single_line_def)

lemma split_nl_block:
  assumes "ls \<noteq> []" "\<forall>l \<in> set ls. single_line l"
  shows "split_nl (join nl ls @ nl @ nl) = ls @ [[], []]"
proof -
  have "join nl (ls @ [[], []]) = join nl ls @ nl @ nl"
    using assms(1) by (simp add: join_append)
  moreover have "\<forall>l \<in> set (ls @ [[], []]). single_line l"
    using assms(2) by (simp add: single_line_def)
  ultimately show ?thesis
    using split_nl_join[of "ls @ [[], []]"] by simp
qed

lemma single_line_sep: "single_line (join '' | '' (replicate n ''---''))"
  by (rule single_line_join) (simp_all add: single_line_def)

section \<open>Claims about the body converter\<close>

text \<open>
  C4 on the code. A child of the post body that is none of the recognised kinds is
  not always skipped: the test for headings accepts every name that starts with
  \<open>h\<close>, and for a horizontal rule \<open>hr\<close> the level \<open>int('r')\<close> raises \<open>ValueError\<close>, as
  does \<open>int('e')\<close> for a \<open>header\<close>. The conversion of a post body with a rule between
  two paragraphs fails with that error instead of returning the two paragraphs.
\<close>

theorem html_to_markdown_hr:
  "convert_child tail (Tag ''hr'' cls attrs cs) = Inl ValueError
   \<and> convert_child tail (Tag ''header'' cls attrs cs) = Inl ValueError
   \<and> html_to_markdown tail
        (post_body_of [Tag ''p'' None [] [NavigableString ''a''], Tag ''hr'' None [] [],
                       Tag ''p'' None [] [NavigableString ''b'']])
      = Inl ValueError"
  by (simp add: html_to_markdown_post_body convert_child_hr convert_child_p handle_text)
    (simp add: convert_child_def Let_def)

text \<open>
  C5 on the code. The test for line breaks looks at the first three characters of
  \<open>str(element)\<close>, so a text node that begins with \<open><br\<close> (written \<open>&lt;br\<close> in the
  page) is not rendered as its text but as two newlines, and a paragraph made of it
  becomes four newlines. The paragraph with the hyperlink \<open>here\<close> to \<open>http://x\<close> is
  rendered as the example says.
\<close>

theorem handle_element_text_br:
  "handle_element tail (NavigableString ''<br> breaks a line'') = nl @ nl
   \<and> str_of tail (NavigableString ''<br> breaks a line'') = ''<br> breaks a line''
   \<and> convert_child tail (Tag ''p'' None [] [NavigableString ''<br> breaks a line''])
      = Inr (nl @ nl @ nl @ nl)
   \<and> convert_child tail
        (Tag ''p'' None [] [Tag ''a'' None [(''href'', ''http://x'')] [NavigableString ''here'']])
      = Inr (''[here](http://x)'' @ nl @ nl)"
  by (simp add: convert_child_p handle_element_cases(1) get_text_single)
    (simp add: handle_element_def)

text \<open>
  C6, as amended. For a table child the converter appends the header-cell texts
  joined by \<open>" | "\<close>, then \<open>---\<close> once per header cell joined by \<open>" | "\<close>, then for
  every row after the first the texts of its cells joined by \<open>" | "\<close>, these texts
  joined by newlines and followed by two newlines. When no header-cell text and no
  text of a cell of a row after the first contains a newline, these texts are the
  lines of what is appended, followed by one blank line: first the header line, then
  the separator line, then one line per row after the first, so a table with two data
  rows gives a block of four lines.
\<close>

theorem convert_child_table:
  "let tbl = Tag ''table'' cls attrs cs;
       ths = find_all (has_name ''th'') tbl;
       trs = find_all (has_name ''tr'') tbl;
       header_line = join '' | '' (map get_text_strip ths);
       separator_line = join '' | '' (replicate (length ths) ''---'');
       row_lines = map (\<lambda>row. join '' | '' (map get_text_strip (find_all (has_name ''td'') row)))
                     (drop 1 trs)
   in convert_child tail tbl
        = Inr (join nl (header_line # separator_line # row_lines) @ nl @ nl)
      \<and> (list_all (\<lambda>th. single_line (get_text_strip th)) ths
          \<and> list_all (\<lambda>row. list_all (\<lambda>td. single_line (get_text_strip td))
                              (find_all (has_name ''td'') row)) (drop 1 trs)
         \<longrightarrow> (\<exists>out. convert_child tail tbl = Inr out
                \<and> split_nl out = header_line # separator_line # row_lines @ [[], []]
                \<and> length (split_nl out) = 2 + (length trs - 1) + 2))"
proof -
  define tbl where "tbl = Tag ''table'' cls attrs cs"
  define ths where "ths = find_all (has_name ''th'') tbl"
  define trs where "trs = find_all (has_name ''tr'') tbl"
  define header_line where "header_line = join '' | '' (map get_text_strip ths)"
  define separator_line where "separator_line = join '' | '' (replicate (length ths) ''---'')"
  define row_lines where "row_lines
    = map (\<lambda>row. join '' | '' (map get_text_strip (find_all (has_name ''td'') row))) (drop 1 trs)"
  have out: "convert_child tail tbl
        = Inr (join nl (header_line # separator_line # row_lines) @ nl @ nl)"
    by (simp add: convert_child_def Let_def tbl_def ths_def trs_def header_line_def
        separator_line_def row_lines_def)
  have lines: "\<exists>out. convert_child tail tbl = Inr out
                \<and> split_nl out = header_line # separator_line # row_lines @ [[], []]
                \<and> length (split_nl out) = 2 + (length trs - 1) + 2"
    if h: "list_all (\<lambda>th. single_line (get_text_strip th)) ths"
      and r: "list_all (\<lambda>row. list_all (\<lambda>td. single_line (get_text_strip td))
                              (find_all (has_name ''td'') row)) (drop 1 trs)"
  proof -
    have sep: "single_line '' | ''" by (simp add: single_line_def)
    have 1: "single_line header_line"
      unfolding header_line_def using h
      by (intro single_line_join sep) (simp add: list_all_iff)
    have 2: "single_line separator_line"
      unfolding separator_line_def by (rule single_line_sep)
    have 3: "\<forall>l \<in> set row_lines. single_line l"
      unfolding row_lines_def using r
      by (auto simp: list_all_iff intro!: single_line_join sep)
    have "split_nl (join nl (header_line # separator_line # row_lines) @ nl @ nl)
        = (header_line # separator_line # row_lines) @ [[], []]"
      using 1 2 3 by (intro split_nl_block) simp_all
    moreover have "length row_lines = length trs - 1"
      by (simp add: row_lines_def)
    ultimately show ?thesis using out by simp
  qed
  from out lines show ?thesis
    unfolding Let_def tbl_def ths_def trs_def header_line_def separator_line_def row_lines_def
    by blast
qed

text \<open>
  The cells of the example table of two columns and two data rows are single lines;
  it gives the four lines \<open>A | B\<close>, \<open>--- | ---\<close>, \<open>1 | 2\<close>, \<open>3 | 4\<close> and a blank
  line.
\<close>

theorem convert_child_table_witness:
  "list_all (\<lambda>th. single_line (get_text_strip th)) (find_all (has_name ''th'') example_table)
   \<and> list_all (\<lambda>row. list_all (\<lambda>td. single_line (get_text_strip td))
                   (find_all (has_name ''td'') row))
        (drop 1 (find_all (has_name ''tr'') example_table))
   \<and> length (find_all (has_name ''th'') example_table) = 2
   \<and> length (drop 1 (find_all (has_name ''tr'') example_table)) = 2
   \<and> convert_child example_tail example_table
      = Inr (''A | B'' @ nl @ ''--- | ---'' @ nl @ ''1 | 2'' @ nl @ ''3 | 4'' @ nl @ nl)
   \<and> split_nl (''A | B'' @ nl @ ''--- | ---'' @ nl @ ''1 | 2'' @ nl @ ''3 | 4'' @ nl @ nl)
      = [''A | B'', ''--- | ---'', ''1 | 2'', ''3 | 4'', [], []]"
proof -
  let ?cs = "[Tag ''tr'' None [] [Tag ''th'' None [] [NavigableString ''A''],
                            Tag ''th'' None [] [NavigableString ''B'']],
        Tag ''tr'' None [] [Tag ''td'' None [] [NavigableString ''1''],
                            Tag ''td'' None [] [NavigableString ''2'']],
        Tag ''tr'' None [] [Tag ''td'' None [] [NavigableString ''3''],
                            Tag ''td'' None [] [NavigableString ''4'']]]"
  have t: "example_table = Tag ''table'' None [] ?cs" by (simp add: example_table_def)
  have h: "list_all (\<lambda>th. single_line (get_text_strip th)) (find_all (has_name ''th'') example_table)"
    by code_simp
  have r: "list_all (\<lambda>row. list_all (\<lambda>td. single_line (get_text_strip td))
                   (find_all (has_name ''td'') row))
        (drop 1 (find_all (has_name ''tr'') example_table))"
    by code_simp
  have n: "length (find_all (has_name ''th'') example_table) = 2" by code_simp
  have m: "length (drop 1 (find_all (has_name ''tr'') example_table)) = 2" by code_simp
  have hl: "join '' | '' (map get_text_strip (find_all (has_name ''th'') example_table)) = ''A | B''"
    by code_simp
  have sl: "join '' | '' (replicate (length (find_all (has_name ''th'') example_table)) ''---'')
      = ''--- | ---''"
    by code_simp
  have rl: "map (\<lambda>row. join '' | '' (map get_text_strip (find_all (has_name ''td'') row)))
                     (drop 1 (find_all (has_name ''tr'') example_table)) = [''1 | 2'', ''3 | 4'']"
    by code_simp
  from convert_child_table[where cls = None and attrs = "[]" and cs = ?cs and tail = example_tail]
  have c: "convert_child example_tail example_table
      = Inr (join nl [''A | B'', ''--- | ---'', ''1 | 2'', ''3 | 4''] @ nl @ nl)"
    and s: "\<exists>out. convert_child example_tail example_table = Inr out
       \<and> split_nl out = [''A | B'', ''--- | ---'', ''1 | 2'', ''3 | 4'', [], []]"
    using h r unfolding Let_def t[symmetric] hl sl rl by simp_all
  from c have c': "convert_child example_tail example_table
      = Inr (''A | B'' @ nl @ ''--- | ---'' @ nl @ ''1 | 2'' @ nl @ ''3 | 4'' @ nl @ nl)"
    by simp
  from s c' have s': "split_nl (''A | B'' @ nl @ ''--- | ---'' @ nl @ ''1 | 2'' @ nl @ ''3 | 4'' @ nl @ nl)
      = [''A | B'', ''--- | ---'', ''1 | 2'', ''3 | 4'', [], []]"
    by auto
  from h r n m c' s' show ?thesis by blast
qed

text \<open>
  C6 as stated fails: a cell's text is stripped at its ends only, so a line break
  inside it is kept. The table of two columns and two data rows whose first data
  cell reads \<open>1\<close>, line break, \<open>1\<close> gives a block of five lines, and its first data
  row takes two of them.
\<close>

theorem convert_child_table_line_break:
  "length (find_all (has_name ''th'') example_table_break) = 2
   \<and> length (drop 1 (find_all (has_name ''tr'') example_table_break)) = 2
   \<and> map (\<lambda>row. map get_text_strip (find_all (has_name ''td'') row))
        (drop 1 (find_all (has_name ''tr'') example_table_break))
      = [[''1'' @ nl @ ''1'', ''2''], [''3'', ''4'']]
   \<and> convert_child example_tail example_table_break
      = Inr (''A | B'' @ nl @ ''--- | ---'' @ nl @ ''1'' @ nl @ ''1 | 2'' @ nl @ ''3 | 4'' @ nl @ nl)
   \<and> split_nl (''A | B'' @ nl @ ''--- | ---'' @ nl @ ''1'' @ nl @ ''1 | 2'' @ nl @ ''3 | 4'' @ nl @ nl)
      = [''A | B'', ''--- | ---'', ''1'', ''1 | 2'', ''3 | 4'', [], []]"
proof -
  have a: "length (find_all (has_name ''th'') example_table_break) = 2" by code_simp
  have b: "length (drop 1 (find_all (has_name ''tr'') example_table_break)) = 2" by code_simp
  have c: "map (\<lambda>row. map get_text_strip (find_all (has_name ''td'') row))
        (drop 1 (find_all (has_name ''tr'') example_table_break))
      = [[''1'' @ nl @ ''1'', ''2''], [''3'', ''4'']]"
    by code_simp
  have d: "convert_child example_tail example_table_break
      = Inr (''A | B'' @ nl @ ''--- | ---'' @ nl @ ''1'' @ nl @ ''1 | 2'' @ nl @ ''3 | 4'' @ nl @ nl)"
    by code_simp
  have e: "split_nl (''A | B'' @ nl @ ''--- | ---'' @ nl @ ''1'' @ nl @ ''1 | 2'' @ nl @ ''3 | 4'' @ nl @ nl)
      = [''A | B'', ''--- | ---'', ''1'', ''1 | 2'', ''3 | 4'', [], []]"
    by code_simp
  from a b c d e show ?thesis by blast
qed

text \<open>
  C10. A figure child of class \<open>highlight plaintext\<close> in which no \<open>td\<close> of class
  \<open>code\<close> is found appends nothing and raises nothing. When one is found, the figure
  appends a newline, the opening fence and a newline, the block, a newline, the
  closing fence and a newline. The block is made of the texts of the cell's \<open>span\<close>s
  of class \<open>line\<close>: each is cut to a line that it continues by whitespace only and
  that does not end in whitespace; the lines are joined by newlines; and the block
  is the joined text without a run of whitespace at its start and one at its end, and
  neither starts nor ends with whitespace.
\<close>

theorem convert_child_figure:
  "(find_first (\<lambda>e. has_name ''td'' e \<and> has_class ''code'' e)
        (Tag ''figure'' (Some [''highlight'', ''plaintext'']) attrs cs) = None
    \<longrightarrow> convert_child tail (Tag ''figure'' (Some [''highlight'', ''plaintext'']) attrs cs) = Inr [])
   \<and> (find_first (\<lambda>e. has_name ''td'' e \<and> has_class ''code'' e)
        (Tag ''figure'' (Some [''highlight'', ''plaintext'']) attrs cs) = Some td_code
    \<longrightarrow> (let spans = find_all (\<lambda>e. has_name ''span'' e \<and> has_class ''line'' e) td_code;
             code_lines = map (\<lambda>span. rstrip (get_text span)) spans;
             block = strip (join nl code_lines)
         in convert_child tail (Tag ''figure'' (Some [''highlight'', ''plaintext'']) attrs cs)
              = Inr (nl @ ''```'' @ nl @ block @ nl @ ''```'' @ nl)
            \<and> list_all2 (\<lambda>span l. \<exists>post. get_text span = l @ post \<and> list_all py_isspace post
                   \<and> (l = [] \<or> \<not> py_isspace (last l))) spans code_lines
            \<and> (\<exists>pre post. join nl code_lines = pre @ block @ post
                   \<and> list_all py_isspace pre \<and> list_all py_isspace post)
            \<and> (block = [] \<or> (\<not> py_isspace (hd block) \<and> \<not> py_isspace (last block)))))"
proof (intro conjI impI)
  assume "find_first (\<lambda>e. has_name ''td'' e \<and> has_class ''code'' e)
        (Tag ''figure'' (Some [''highlight'', ''plaintext'']) attrs cs) = None"
  then show "convert_child tail (Tag ''figure'' (Some [''highlight'', ''plaintext'']) attrs cs) = Inr []"
    by (simp add: convert_child_def)
next
  assume f: "find_first (\<lambda>e. has_name ''td'' e \<and> has_class ''code'' e)
        (Tag ''figure'' (Some [''highlight'', ''plaintext'']) attrs cs) = Some td_code"
  define spans where "spans = find_all (\<lambda>e. has_name ''span'' e \<and> has_class ''line'' e) td_code"
  define code_lines where "code_lines = map (\<lambda>span. rstrip (get_text span)) spans"
  define block where "block = strip (join nl code_lines)"
  have 1: "convert_child tail (Tag ''figure'' (Some [''highlight'', ''plaintext'']) attrs cs)
              = Inr (nl @ ''```'' @ nl @ block @ nl @ ''```'' @ nl)"
    using f by (simp add: convert_child_def Let_def block_def code_lines_def spans_def)
  have 2: "list_all2 (\<lambda>span l. \<exists>post. get_text span = l @ post \<and> list_all py_isspace post
                   \<and> (l = [] \<or> \<not> py_isspace (last l))) spans code_lines"
    unfolding code_lines_def by (rule rstrip_lines)
  from strip_decomp[of "join nl code_lines"]
  have 3: "\<exists>pre post. join nl code_lines = pre @ block @ post
                   \<and> list_all py_isspace pre \<and> list_all py_isspace post"
    and 4: "block = [] \<or> (\<not> py_isspace (hd block) \<and> \<not> py_isspace (last block))"
    unfolding block_def by blast+
  from 1 2 3 4
  show "let spans = find_all (\<lambda>e. has_name ''span'' e \<and> has_class ''line'' e) td_code;
             code_lines = map (\<lambda>span. rstrip (get_text span)) spans;
             block = strip (join nl code_lines)
         in convert_child tail (Tag ''figure'' (Some [''highlight'', ''plaintext'']) attrs cs)
              = Inr (nl @ ''```'' @ nl @ block @ nl @ ''```'' @ nl)
            \<and> list_all2 (\<lambda>span l. \<exists>post. get_text span = l @ post \<and> list_all py_isspace post
                   \<and> (l = [] \<or> \<not> py_isspace (last l))) spans code_lines
            \<and> (\<exists>pre post. join nl code_lines = pre @ block @ post
                   \<and> list_all py_isspace pre \<and> list_all py_isspace post)
            \<and> (block = [] \<or> (\<not> py_isspace (hd block) \<and> \<not> py_isspace (last block)))"
    unfolding Let_def block_def code_lines_def spans_def by blast
qed

text \<open>
  The example figure without a code cell appends nothing. The code cell of the other
  example figure has a blank first line, the line \<open>a\<close> followed by two blanks, the
  lines \<open>b\<close> and \<open>c\<close>, and an empty last line: the blanks after \<open>a\<close> are cut from
  the line, the blank first and last lines from the block, and the figure appends the
  fenced block of the three lines.
\<close>

theorem convert_child_figure_witness:
  "find_first (\<lambda>e. has_name ''td'' e \<and> has_class ''code'' e) example_empty_figure = None
   \<and> convert_child example_tail example_empty_figure = Inr []
   \<and> find_first (\<lambda>e. has_name ''td'' e \<and> has_class ''code'' e) example_figure
      = Some example_code_cell
   \<and> map get_text (find_all (\<lambda>e. has_name ''span'' e \<and> has_class ''line'' e) example_code_cell)
      = [''  '', ''a  '', ''b'', ''c'', []]
   \<and> map (\<lambda>span. rstrip (get_text span))
        (find_all (\<lambda>e. has_name ''span'' e \<and> has_class ''line'' e) example_code_cell)
      = [[], ''a'', ''b'', ''c'', []]
   \<and> join nl [[], ''a'', ''b'', ''c'', []] = nl @ ''a'' @ nl @ ''b'' @ nl @ ''c'' @ nl
   \<and> strip (nl @ ''a'' @ nl @ ''b'' @ nl @ ''c'' @ nl) = ''a'' @ nl @ ''b'' @ nl @ ''c''
   \<and> convert_child example_tail example_figure
      = Inr (nl @ ''```'' @ nl @ ''a'' @ nl @ ''b'' @ nl @ ''c'' @ nl @ ''```'' @ nl)"
proof -
  have n: "find_first (\<lambda>e. has_name ''td'' e \<and> has_class ''code'' e) example_empty_figure = None"
    by code_simp
  have s: "find_first (\<lambda>e. has_name ''td'' e \<and> has_class ''code'' e) example_figure
      = Some example_code_cell"
    by code_simp
  have g: "map get_text (find_all (\<lambda>e. has_name ''span'' e \<and> has_class ''line'' e) example_code_cell)
      = [''  '', ''a  '', ''b'', ''c'', []]"
    by code_simp
  have l: "map (\<lambda>span. rstrip (get_text span))
        (find_all (\<lambda>e. has_name ''span'' e \<and> has_class ''line'' e) example_code_cell)
      = [[], ''a'', ''b'', ''c'', []]"
    by code_simp
  have j: "join nl [[], ''a'', ''b'', ''c'', []] = nl @ ''a'' @ nl @ ''b'' @ nl @ ''c'' @ nl"
    by simp
  have st: "strip (nl @ ''a'' @ nl @ ''b'' @ nl @ ''c'' @ nl) = ''a'' @ nl @ ''b'' @ nl @ ''c''"
    by code_simp
  have "convert_child example_tail example_empty_figure = Inr []"
    using convert_child_figure[where attrs = "[]" and cs = "[Tag ''pre'' None [] [NavigableString ''x'']]"
        and tail = example_tail] n
    by (simp add: example_empty_figure_def)
  moreover have "convert_child example_tail example_figure
      = Inr (nl @ ''```'' @ nl @ ''a'' @ nl @ ''b'' @ nl @ ''c'' @ nl @ ''```'' @ nl)"
    using convert_child_figure[where attrs = "[]"
        and cs = "[Tag ''table'' None [] [Tag ''tr'' None [] [example_code_cell]]]"
        and td_code = example_code_cell and tail = example_tail] s l st
    by (simp add: example_figure_def Let_def)
  ultimately show ?thesis using n s g l j st by blast
qed

section \<open>Properties of the strict extraction\<close>

lemma meta_content_absent: "metadata_absent soup p \<Longrightarrow> \<exists>e. meta_content soup p = Inl e"
  by (auto simp: metadata_absent_def meta_content_def split: option.splits)

lemma meta_content_Inr:
  "meta_content soup p = Inr c \<Longrightarrow>
   \<exists>m. find_first (\<lambda>e. has_name ''meta'' e \<and> has_attr ''property'' p e) soup = Some m
        \<and> get m ''content'' = Some c"
  by (auto simp: meta_content_def split: option.splits)

lemma process_front_matter_Inr:
  assumes "process_front_matter pf soup = Inr fm"
  shows "\<exists>p m. meta_content soup ''article:published_time'' = Inr p
      \<and> meta_content soup ''article:modified_time'' = Inr m
      \<and> convert_utc_to_timezone pf p ''Asia/Shanghai'' = Inr (updated fm)
      \<and> convert_utc_to_timezone pf m ''Asia/Shanghai'' = Inr (date fm)"
  using assms
  by (auto simp: process_front_matter_def Let_def split: option.splits sum.splits)

lemma process_front_matter_absent:
  assumes "meta_content soup ''article:published_time'' = Inl e
      \<or> meta_content soup ''article:modified_time'' = Inl e"
  shows "\<exists>e'. process_front_matter pf soup = Inl e'"
  using assms
  by (auto simp: process_front_matter_def Let_def split: option.splits sum.splits)

section \<open>Claims about the strict extraction\<close>

text \<open>
  C7. When the publication time or the modification time is absent from the
  metadata, the strict extraction fails: it returns an error and no record. When it
  returns a record, the page has both times, \<open>updated\<close> is the publication time and
  \<open>date\<close> the modification time, each converted by \<open>convert_utc_to_timezone\<close> to the
  fixed zone Asia/Shanghai.
\<close>

theorem process_front_matter_times:
  "(metadata_absent soup ''article:published_time'' \<or> metadata_absent soup ''article:modified_time''
    \<longrightarrow> (\<exists>e. process_front_matter pf soup = Inl e))
   \<and> (process_front_matter pf soup = Inr fm
    \<longrightarrow> (\<exists>tp p tm m.
           find_first (\<lambda>e. has_name ''meta'' e \<and> has_attr ''property'' ''article:published_time'' e) soup
             = Some tp
           \<and> get tp ''content'' = Some p
           \<and> find_first (\<lambda>e. has_name ''meta'' e \<and> has_attr ''property'' ''article:modified_time'' e) soup
             = Some tm
           \<and> get tm ''content'' = Some m
           \<and> convert_utc_to_timezone pf p ''Asia/Shanghai'' = Inr (updated fm)
           \<and> convert_utc_to_timezone pf m ''Asia/Shanghai'' = Inr (date fm)))"
proof (intro conjI impI)
  assume "metadata_absent soup ''article:published_time'' \<or> metadata_absent soup ''article:modified_time''"
  then show "\<exists>e. process_front_matter pf soup = Inl e"
    using meta_content_absent process_front_matter_absent by blast
next
  assume "process_front_matter pf soup = Inr fm"
  from process_front_matter_Inr[OF this] obtain p m where
    "meta_content soup ''article:published_time'' = Inr p"
    "meta_content soup ''article:modified_time'' = Inr m"
    "convert_utc_to_timezone pf p ''Asia/Shanghai'' = Inr (updated fm)"
    "convert_utc_to_timezone pf m ''Asia/Shanghai'' = Inr (date fm)" by blast
  then show "\<exists>tp p tm m.
           find_first (\<lambda>e. has_name ''meta'' e \<and> has_attr ''property'' ''article:published_time'' e) soup
             = Some tp
           \<and> get tp ''content'' = Some p
           \<and> find_first (\<lambda>e. has_name ''meta'' e \<and> has_attr ''property'' ''article:modified_time'' e) soup
             = Some tm
           \<and> get tm ''content'' = Some m
           \<and> convert_utc_to_timezone pf p ''Asia/Shanghai'' = Inr (updated fm)
           \<and> convert_utc_to_timezone pf m ''Asia/Shanghai'' = Inr (date fm)"
    using meta_content_Inr by blast
qed

text \<open>
  The example page without a modification time is rejected; the example page with
  both times yields the record with both of them converted.
\<close>

theorem process_front_matter_times_witness:
  "metadata_absent example_soup_unmodified ''article:modified_time''
   \<and> (\<exists>e. process_front_matter example_platform example_soup_unmodified = Inl e)
   \<and> process_front_matter example_platform example_soup
      = Inr \<lparr>title = ''A'', updated = ''2024-01-01 08:00:00'', date = ''2024-06-15 18:30:00'',
             categories = None, tags = [''x'', ''y'']\<rparr>
   \<and> (\<exists>tp tm. find_first (\<lambda>e. has_name ''meta'' e
                    \<and> has_attr ''property'' ''article:published_time'' e) example_soup = Some tp
        \<and> get tp ''content'' = Some ''2024-01-01T00:00:00.000Z''
        \<and> find_first (\<lambda>e. has_name ''meta'' e
                    \<and> has_attr ''property'' ''article:modified_time'' e) example_soup = Some tm
        \<and> get tm ''content'' = Some ''2024-06-15T10:30:00Z''
        \<and> convert_utc_to_timezone example_platform ''2024-01-01T00:00:00.000Z'' ''Asia/Shanghai''
           = Inr ''2024-01-01 08:00:00''
        \<and> convert_utc_to_timezone example_platform ''2024-06-15T10:30:00Z'' ''Asia/Shanghai''
           = Inr ''2024-06-15 18:30:00'')"
proof -
  let ?fm = "\<lparr>title = ''A'', updated = ''2024-01-01 08:00:00'', date = ''2024-06-15 18:30:00'',
             categories = None, tags = [''x'', ''y'']\<rparr>"
  have a: "metadata_absent example_soup_unmodified ''article:modified_time''" by code_simp
  have r: "process_front_matter example_platform example_soup = Inr ?fm" by code_simp
  have gp: "get (Tag ''meta'' None [(''property'', ''article:published_time''),
                         (''content'', ''2024-01-01T00:00:00.000Z'')] []) ''content''
            = Some ''2024-01-01T00:00:00.000Z''" by simp
  have fp: "find_first (\<lambda>e. has_name ''meta'' e
                    \<and> has_attr ''property'' ''article:published_time'' e) example_soup
     = Some (Tag ''meta'' None [(''property'', ''article:published_time''),
                         (''content'', ''2024-01-01T00:00:00.000Z'')] [])" by code_simp
  have fm: "find_first (\<lambda>e. has_name ''meta'' e
                    \<and> has_attr ''property'' ''article:modified_time'' e) example_soup
     = Some example_modified" by code_simp
  have gm: "get example_modified ''content'' = Some ''2024-06-15T10:30:00Z''" by code_simp
  from process_front_matter_times[of example_soup_unmodified example_platform] a
  have 1: "\<exists>e. process_front_matter example_platform example_soup_unmodified = Inl e" by blast
  from process_front_matter_times[of example_soup example_platform ?fm] r
  have 2: "\<exists>tp p tm m.
           find_first (\<lambda>e. has_name ''meta'' e \<and> has_attr ''property'' ''article:published_time'' e) example_soup
             = Some tp
           \<and> get tp ''content'' = Some p
           \<and> find_first (\<lambda>e. has_name ''meta'' e \<and> has_attr ''property'' ''article:modified_time'' e) example_soup
             = Some tm
           \<and> get tm ''content'' = Some m
           \<and> convert_utc_to_timezone example_platform p ''Asia/Shanghai'' = Inr (updated ?fm)
           \<and> convert_utc_to_timezone example_platform m ''Asia/Shanghai'' = Inr (date ?fm)"
    by blast
  then have 3: "\<exists>tp tm. find_first (\<lambda>e. has_name ''meta'' e
                    \<and> has_attr ''property'' ''article:published_time'' e) example_soup = Some tp
        \<and> get tp ''content'' = Some ''2024-01-01T00:00:00.000Z''
        \<and> find_first (\<lambda>e. has_name ''meta'' e
                    \<and> has_attr ''property'' ''article:modified_time'' e) example_soup = Some tm
        \<and> get tm ''content'' = Some ''2024-06-15T10:30:00Z''
        \<and> convert_utc_to_timezone example_platform ''2024-01-01T00:00:00.000Z'' ''Asia/Shanghai''
           = Inr ''2024-01-01 08:00:00''
        \<and> convert_utc_to_timezone example_platform ''2024-06-15T10:30:00Z'' ''Asia/Shanghai''
           = Inr ''2024-06-15 18:30:00''"
    by (auto simp: fp fm gp gm)
  from a 1 r 3 show ?thesis by blast
qed

end
